theory Spec2Isabelle
  imports Complex_Main
begin

section \<open>Data model of \<open>deepeval/evaluate.py\<close>\<close>

text \<open>
  Python objects that the code mutates through shared references (metrics, single-turn
  test cases) live in explicit stores indexed by an address, which stands for Python's
  \<open>id(obj)\<close>. Floats are reals, a \<open>Dict\<close> is an association list, \<open>Optional[t]\<close> is
  \<open>t option\<close>.
\<close>

type_synonym addr = nat
type_synonym py_dict = "(string \<times> string) list"

text \<open>Exceptions that leave a function of the module. An exception raised by a metric is
  kept by its message \<open>str(e)\<close>.\<close>

datatype exn =
    MetricException string
  | IndexError
  | TypeError
  | KeyError
  | ZeroDivisionError
  | AssertionError string

record LLMTestCase =
  tc_input :: string
  tc_actual_output :: string
  tc_expected_output :: "string option"
  tc_context :: "string list option"
  tc_retrieval_context :: "string list option"
  tc_tools_used :: "string list option"
  tc_expected_tools :: "string list option"
  tc_additional_metadata :: "py_dict option"
  tc_comments :: "string option"
  tc_dataset_rank :: "int option"

record message =
  should_evaluate :: bool
  llm_test_case :: addr

record ConversationalTestCase =
  messages :: "message list"
  conv_additional_metadata :: "py_dict option"
  conv_comments :: "string option"
  conv_dataset_rank :: "int option"

datatype test_case = LLM addr | Conversational ConversationalTestCase

datatype metric_class = BaseMetric | BaseConversationalMetric

record metric =
  m_name :: string
  m_threshold :: real
  m_strict_mode :: bool
  m_evaluation_model :: "string option"
  m_score :: "real option"
  m_reason :: "string option"
  m_success :: bool
  m_error :: "string option"
  m_evaluation_cost :: "real option"
  m_verbose_logs :: "string option"
  m_async_mode :: bool
  m_verbose_mode :: bool

record MetricData =
  md_name :: string
  md_threshold :: real
  md_success :: bool
  md_score :: "real option"
  md_reason :: "string option"
  md_strict_mode :: bool
  md_evaluation_model :: "string option"
  md_error :: "string option"
  md_evaluation_cost :: "real option"
  md_verbose_logs :: "string option"

record TestResult =
  tr_success :: "bool option"
  tr_metrics_data :: "MetricData list option"
  tr_input :: string
  tr_actual_output :: string
  tr_expected_output :: "string option"
  tr_context :: "string list option"
  tr_retrieval_context :: "string list option"

record LLMApiTestCase =
  api_name :: string
  api_input :: string
  api_actual_output :: string
  api_expected_output :: "string option"
  api_context :: "string list option"
  api_retrieval_context :: "string list option"
  api_tools_used :: "string list option"
  api_expected_tools :: "string list option"
  api_success :: "bool option"
  api_metrics_data :: "MetricData list option"
  api_run_duration :: "real option"
  api_evaluation_cost :: "real option"
  api_order :: "int option"
  api_additional_metadata :: "py_dict option"
  api_comments :: "string option"
  api_trace_stack :: "string option"
  api_conversational_instance_id :: "nat option"

record ConversationalApiTestCase =
  capi_name :: string
  capi_success :: bool
  capi_metrics_data :: "MetricData list option"
  capi_run_duration :: real
  capi_evaluation_cost :: "real option"
  capi_order :: "int option"
  capi_test_cases :: "LLMApiTestCase list"
  capi_instance_id :: nat
  capi_messages :: "LLMApiTestCase list"

datatype api_test_case =
    LLMApi LLMApiTestCase
  | ConversationalApi ConversationalApiTestCase

record MetricConfiguration =
  mc_threshold :: real
  mc_strict_mode :: bool
  mc_evaluation_model :: "string option"

record CachedMetricData =
  cmd_metric_data :: MetricData
  cmd_metric_configuration :: MetricConfiguration

record CachedTestCase =
  cached_metrics_data :: "CachedMetricData list"

text \<open>The key of a cache entry: the evaluable fields of the test case and the
  hyperparameters of the run.\<close>

type_synonym cache_key =
  "(string \<times> string \<times> string option \<times> string list option \<times> string list option)
    \<times> py_dict option"

text \<open>
  The state the module works on: the two object stores, the module-level
  \<open>llm_test_case_lookup_map\<close>, the source of fresh object identities, the number of
  \<open>time.perf_counter()\<close> readings taken so far, the cache manager
  (\<open>global_test_run_cache_manager\<close>) and the test run manager with the records handed to
  \<open>update_test_run\<close>.
\<close>

record state =
  metric_objs :: "addr \<Rightarrow> metric"
  test_case_objs :: "addr \<Rightarrow> LLMTestCase"
  llm_test_case_lookup_map :: "addr \<rightharpoonup> LLMApiTestCase"
  next_object_id :: nat
  perf_counter_calls :: nat
  disable_write_cache :: bool
  durable_cache :: "cache_key \<rightharpoonup> CachedTestCase"
  transient_cache :: "cache_key \<rightharpoonup> CachedTestCase"
  trm_save_to_disk :: bool
  trm_hyperparameters :: "py_dict option"
  trm_test_run :: "(api_test_case \<times> test_case) list"

text \<open>
  What the module takes from outside: the class of each metric object, which no
  assignment changes, the scoring code of the metrics (\<open>metric.measure\<close> gives
  the metric object as the call leaves it and, when the call raises, the message of the
  exception), the readings of the clock, the environment variable with the name of the
  running test, the trace stack, the settings read by \<open>assert_test\<close>, and the printing of
  a float.
\<close>

record world =
  metric_class :: "addr \<Rightarrow> metric_class"
  metric_measure :: "metric \<Rightarrow> test_case \<Rightarrow> (addr \<Rightarrow> LLMTestCase) \<Rightarrow> metric \<times> string option"
  perf_counter :: "nat \<Rightarrow> real"
  PYTEST_RUN_TEST_NAME :: "string option"
  get_trace_stack :: "string option"
  should_ignore_errors :: bool
  should_use_cache :: bool
  should_verbose_print :: "bool option"
  get_is_running_deepeval :: bool
  str_float :: "real \<Rightarrow> string"

section \<open>Printing integers\<close>

definition digit_char :: "nat \<Rightarrow> char" where
  "digit_char d = char_of (48 + d)"

fun str_nat :: "nat \<Rightarrow> string" where
  "str_nat n = (if n < 10 then [digit_char n] else str_nat (n div 10) @ [digit_char (n mod 10)])"

declare str_nat.simps [simp del]

definition str_int :: "int \<Rightarrow> string" where
  "str_int i = (if i < 0 then CHR ''-'' # str_nat (nat (- i)) else str_nat (nat i))"

section \<open>Building results\<close>

text \<open>Modelled from the spec: the metric implementations are not part of the module; by
  the metric interface \<open>success\<close> is a readable field, which \<open>is_successful()\<close> returns.\<close>

definition is_successful :: "metric \<Rightarrow> bool" where
  "is_successful m = m_success m"

definition create_metric_data :: "metric \<Rightarrow> MetricData" where
  "create_metric_data m =
     (if m_error m \<noteq> None then
        \<lparr> md_name = m_name m, md_threshold = m_threshold m, md_success = False,
          md_score = None, md_reason = None, md_strict_mode = m_strict_mode m,
          md_evaluation_model = m_evaluation_model m, md_error = m_error m,
          md_evaluation_cost = m_evaluation_cost m, md_verbose_logs = m_verbose_logs m \<rparr>
      else
        \<lparr> md_name = m_name m, md_threshold = m_threshold m,
          md_success = is_successful m,
          md_score = m_score m, md_reason = m_reason m, md_strict_mode = m_strict_mode m,
          md_evaluation_model = m_evaluation_model m, md_error = None,
          md_evaluation_cost = m_evaluation_cost m, md_verbose_logs = m_verbose_logs m \<rparr>)"

text \<open>The fields of a \<open>TestResult\<close> as \<open>create_test_result\<close> reads them from a record.
  \<open>metrics_data=tc.metrics_data\<close> hands over the list object of the record, not a copy;
  \<open>test_result_of\<close> gives the contents of that list at the time of the call, and
  \<open>test_result_entry\<close> below keeps track of whose list it is.\<close>

definition test_result_of :: "LLMApiTestCase \<Rightarrow> TestResult" where
  "test_result_of tc =
     \<lparr> tr_success = api_success tc, tr_metrics_data = api_metrics_data tc,
       tr_input = api_input tc, tr_actual_output = api_actual_output tc,
       tr_expected_output = api_expected_output tc, tr_context = api_context tc,
       tr_retrieval_context = api_retrieval_context tc \<rparr>"

text \<open>\<open>test_case.messages[len(test_case.messages) - 1]\<close>: with no message the index is
  \<open>-1\<close>, which Python reads from the end of the empty list and raises.\<close>

definition create_test_result :: "api_test_case \<Rightarrow> exn + TestResult" where
  "create_test_result test_case =
     (case test_case of
        ConversationalApi c \<Rightarrow>
          (if capi_messages c = [] then Inl IndexError
           else Inr (test_result_of (capi_messages c ! (length (capi_messages c) - 1))))
      | LLMApi tc \<Rightarrow> Inr (test_result_of tc))"

section \<open>Creating the records of the test run\<close>

text \<open>Truth value of an \<open>Optional[int]\<close>.\<close>

definition truthy_id :: "nat option \<Rightarrow> bool" where
  "truthy_id i = (case i of None \<Rightarrow> False | Some n \<Rightarrow> n \<noteq> 0)"

text \<open>The branch of \<open>create_api_test_case\<close> for an \<open>LLMTestCase\<close>, the object at address
  \<open>a\<close>. A record found in \<open>llm_test_case_lookup_map\<close> is returned as it is. For a message
  of a conversation the metadata and comments of the conversation are written into the
  test case object, and the new record is entered into the lookup map.\<close>

definition create_api_test_case_llm ::
  "world \<Rightarrow> addr \<Rightarrow> int \<Rightarrow> nat option \<Rightarrow> py_dict option \<Rightarrow> string option
     \<Rightarrow> state \<Rightarrow> LLMApiTestCase \<times> state" where
  "create_api_test_case_llm w a index conversational_instance_id additional_metadata comments s =
     (case llm_test_case_lookup_map s a of
        Some api_test_case \<Rightarrow> (api_test_case, s)
      | None \<Rightarrow>
          (let in_conversation = truthy_id conversational_instance_id;
               s1 = (if in_conversation then
                       s\<lparr> test_case_objs := (test_case_objs s)
                            (a := (test_case_objs s a)
                               \<lparr> tc_additional_metadata := additional_metadata,
                                 tc_comments := comments \<rparr>) \<rparr>
                     else s);
               test_case = test_case_objs s1 a;
               api_test_case =
                 \<lparr> api_name =
                     (if in_conversation then ''message_'' @ str_int index
                      else (case PYTEST_RUN_TEST_NAME w of
                              Some n \<Rightarrow> n
                            | None \<Rightarrow> ''test_case_'' @ str_int index)),
                   api_input = tc_input test_case,
                   api_actual_output = tc_actual_output test_case,
                   api_expected_output = tc_expected_output test_case,
                   api_context = tc_context test_case,
                   api_retrieval_context = tc_retrieval_context test_case,
                   api_tools_used = tc_tools_used test_case,
                   api_expected_tools = tc_expected_tools test_case,
                   api_success = (if in_conversation then None else Some True),
                   api_metrics_data = None,
                   api_run_duration = None,
                   api_evaluation_cost = None,
                   api_order =
                     (if in_conversation then Some index else tc_dataset_rank test_case),
                   api_additional_metadata = tc_additional_metadata test_case,
                   api_comments = tc_comments test_case,
                   api_trace_stack = (if in_conversation then None else get_trace_stack w),
                   api_conversational_instance_id = conversational_instance_id \<rparr>
           in (api_test_case,
               if in_conversation then
                 s1\<lparr> llm_test_case_lookup_map :=
                       (llm_test_case_lookup_map s1)(a \<mapsto> api_test_case) \<rparr>
               else s1)))"

text \<open>The list comprehension over \<open>enumerate(test_case.messages)\<close>.\<close>

fun create_message_records ::
  "world \<Rightarrow> nat \<Rightarrow> message list \<Rightarrow> nat \<Rightarrow> py_dict option \<Rightarrow> string option
     \<Rightarrow> state \<Rightarrow> LLMApiTestCase list \<times> state" where
  "create_message_records w index [] instance_id additional_metadata comments s = ([], s)"
| "create_message_records w index (m # ms) instance_id additional_metadata comments s =
     (let (r, s1) = create_api_test_case_llm w (llm_test_case m) (int index)
                      (Some instance_id) additional_metadata comments s;
          (rs, s2) = create_message_records w (Suc index) ms instance_id
                       additional_metadata comments s1
      in (r # rs, s2))"

text \<open>The branch for a \<open>ConversationalTestCase\<close>. The identity of the new record,
  \<open>id(api_test_case)\<close>, is a fresh non-zero number.\<close>

definition create_api_test_case_conversational ::
  "world \<Rightarrow> ConversationalTestCase \<Rightarrow> int \<Rightarrow> state \<Rightarrow> ConversationalApiTestCase \<times> state" where
  "create_api_test_case_conversational w test_case index s =
     (let instance_id = Suc (next_object_id s);
          s0 = s\<lparr> next_object_id := instance_id \<rparr>;
          (msgs, s1) = create_message_records w 0 (messages test_case) instance_id
                         (conv_additional_metadata test_case) (conv_comments test_case) s0
      in (\<lparr> capi_name =
               (case PYTEST_RUN_TEST_NAME w of
                  Some n \<Rightarrow> n
                | None \<Rightarrow> ''conversational_test_case_'' @ str_int index),
             capi_success = True,
             capi_metrics_data = None,
             capi_run_duration = 0,
             capi_evaluation_cost = None,
             capi_order = conv_dataset_rank test_case,
             capi_test_cases = [],
             capi_instance_id = instance_id,
             capi_messages = msgs \<rparr>, s1))"

definition create_api_test_case ::
  "world \<Rightarrow> test_case \<Rightarrow> int \<Rightarrow> state \<Rightarrow> api_test_case \<times> state" where
  "create_api_test_case w test_case index s =
     (case test_case of
        LLM a \<Rightarrow>
          (let (r, s1) = create_api_test_case_llm w a index None None None s
           in (LLMApi r, s1))
      | Conversational c \<Rightarrow>
          (let (r, s1) = create_api_test_case_conversational w c index s
           in (ConversationalApi r, s1)))"

section \<open>Appending the messages of conversations to the batch\<close>

definition evaluated_messages :: "ConversationalTestCase \<Rightarrow> test_case list" where
  "evaluated_messages c = map (\<lambda>m. LLM (llm_test_case m)) (filter should_evaluate (messages c))"

fun unit_weight :: "test_case \<Rightarrow> nat" where
  "unit_weight (LLM a) = 1"
| "unit_weight (Conversational c) = Suc (length (evaluated_messages c))"

text \<open>The loop \<open>for test_case in test_cases\<close> that appends to \<open>test_cases\<close> while it runs:
  Python's list iterator reads position \<open>i\<close> of the list as it is at that moment, so the
  appended entries are visited as well.\<close>

function append_messages :: "nat \<Rightarrow> test_case list \<Rightarrow> test_case list" where
  "append_messages i test_cases =
     (if i < length test_cases then
        (case test_cases ! i of
           Conversational c \<Rightarrow> append_messages (Suc i) (test_cases @ evaluated_messages c)
         | LLM a \<Rightarrow> append_messages (Suc i) test_cases)
      else test_cases)"
  by pat_completeness auto

lemma sum_weight_evaluated_messages:
  "sum_list (map unit_weight (evaluated_messages c)) = length (evaluated_messages c)"
  unfolding evaluated_messages_def by (induction "messages c" arbitrary: c) (simp_all add: comp_def sum_list_triv)

termination append_messages
proof (relation "measure (\<lambda>(i, tcs). sum_list (map unit_weight (drop i tcs)))")
  show "wf (measure (\<lambda>(i, tcs). sum_list (map unit_weight (drop i tcs))))" by simp
next
  fix i :: nat and test_cases :: "test_case list" and a
  assume "i < length test_cases" "test_cases ! i = LLM a"
  then show "((Suc i, test_cases), (i, test_cases))
        \<in> measure (\<lambda>(i, tcs). sum_list (map unit_weight (drop i tcs)))"
    by (simp add: Cons_nth_drop_Suc [symmetric])
next
  fix i :: nat and test_cases :: "test_case list" and c
  assume "i < length test_cases" "test_cases ! i = Conversational c"
  then show "((Suc i, test_cases @ evaluated_messages c), (i, test_cases))
        \<in> measure (\<lambda>(i, tcs). sum_list (map unit_weight (drop i tcs)))"
    by (simp add: Cons_nth_drop_Suc [symmetric] sum_weight_evaluated_messages)
qed

declare append_messages.simps [simp del]

section \<open>Collaborators outside the module\<close>

text \<open>Modelled from the spec: \<open>update_metric_data\<close> of the record classes is not part of
  the module. A ResultRecord is "mutated by appending MetricResult as each metric
  completes", and a unit with a metric result that is not successful "yields an overall
  unsuccessful ResultRecord": the success flag stays true only while every appended result
  reports success. The flag of a message record starts unset and is set by the first
  result.\<close>

definition update_metric_data :: "MetricData \<Rightarrow> LLMApiTestCase \<Rightarrow> LLMApiTestCase" where
  "update_metric_data md r =
     r\<lparr> api_metrics_data :=
           Some ((case api_metrics_data r of None \<Rightarrow> [] | Some mds \<Rightarrow> mds) @ [md]),
        api_success :=
           Some ((case api_success r of None \<Rightarrow> True | Some b \<Rightarrow> b) \<and> md_success md) \<rparr>"

definition update_metric_data_conversational ::
  "MetricData \<Rightarrow> ConversationalApiTestCase \<Rightarrow> ConversationalApiTestCase" where
  "update_metric_data_conversational md r =
     r\<lparr> capi_metrics_data :=
           Some ((case capi_metrics_data r of None \<Rightarrow> [] | Some mds \<Rightarrow> mds) @ [md]),
        capi_success := (capi_success r \<and> md_success md) \<rparr>"

text \<open>Modelled from the spec: \<open>update_run_duration\<close> is not part of the module; a record is
  "finalized when duration is stamped".\<close>

definition update_run_duration :: "real \<Rightarrow> LLMApiTestCase \<Rightarrow> LLMApiTestCase" where
  "update_run_duration d r = r\<lparr> api_run_duration := Some d \<rparr>"

definition update_run_duration_conversational ::
  "real \<Rightarrow> ConversationalApiTestCase \<Rightarrow> ConversationalApiTestCase" where
  "update_run_duration_conversational d r = r\<lparr> capi_run_duration := d \<rparr>"

text \<open>Modelled from the spec: \<open>TestRunManager.update_test_run\<close> is not part of the module;
  "each finalized ResultRecord is handed to a run-record manager". The model keeps every
  call, with the record as it is at the time of the call, in the order of the calls.\<close>

definition update_test_run :: "api_test_case \<Rightarrow> test_case \<Rightarrow> state \<Rightarrow> state" where
  "update_test_run api_test_case test_case s =
     s\<lparr> trm_test_run := trm_test_run s @ [(api_test_case, test_case)] \<rparr>"

text \<open>Modelled from the spec: the cache manager and the class \<open>Cache\<close> are not part of the
  module. Lookups and writes are "keyed by a fingerprint combining the test case's
  evaluable fields and the run's hyperparameters"; the lookup reads the durable tier;
  "writing is globally disabled when the caller opts out of disk persistence
  (\<open>save_to_disk = false\<close>), overriding tier writes but not the transient tier".\<close>

definition cache_key_of :: "LLMTestCase \<Rightarrow> py_dict option \<Rightarrow> cache_key" where
  "cache_key_of tc hyperparameters =
     ((tc_input tc, tc_actual_output tc, tc_expected_output tc, tc_context tc,
       tc_retrieval_context tc), hyperparameters)"

definition get_cached_test_case :: "LLMTestCase \<Rightarrow> py_dict option \<Rightarrow> state \<Rightarrow> CachedTestCase option" where
  "get_cached_test_case tc hyperparameters s = durable_cache s (cache_key_of tc hyperparameters)"

definition cache_test_case ::
  "LLMTestCase \<Rightarrow> CachedTestCase \<Rightarrow> py_dict option \<Rightarrow> bool \<Rightarrow> state \<Rightarrow> state" where
  "cache_test_case tc new_cache_test_case hyperparameters to_temp s =
     (if to_temp then
        s\<lparr> transient_cache :=
             (transient_cache s)(cache_key_of tc hyperparameters \<mapsto> new_cache_test_case) \<rparr>
      else if disable_write_cache s then s
      else
        s\<lparr> durable_cache :=
             (durable_cache s)(cache_key_of tc hyperparameters \<mapsto> new_cache_test_case) \<rparr>)"

text \<open>Modelled from the spec: a cached result is valid for a metric "only if ... the
  metric-configuration fingerprint (threshold, strict-mode, and other scoring parameters)"
  matches the metric's current configuration.\<close>

definition create_metric_configuration :: "metric \<Rightarrow> MetricConfiguration" where
  "create_metric_configuration m =
     \<lparr> mc_threshold = m_threshold m, mc_strict_mode = m_strict_mode m,
       mc_evaluation_model = m_evaluation_model m \<rparr>"

definition get_metric_data :: "metric \<Rightarrow> CachedTestCase \<Rightarrow> CachedMetricData option" where
  "get_metric_data m cached_test_case =
     find (\<lambda>c. md_name (cmd_metric_data c) = m_name m
              \<and> cmd_metric_configuration c = create_metric_configuration m)
       (cached_metrics_data cached_test_case)"

section \<open>Steps shared by the two execution strategies\<close>

text \<open>\<open>time.perf_counter()\<close>: the next reading of the clock.\<close>

definition read_perf_counter :: "world \<Rightarrow> state \<Rightarrow> real \<times> state" where
  "read_perf_counter w s =
     (perf_counter w (perf_counter_calls s), s\<lparr> perf_counter_calls := Suc (perf_counter_calls s) \<rparr>)"

definition update_metric :: "addr \<Rightarrow> (metric \<Rightarrow> metric) \<Rightarrow> state \<Rightarrow> state" where
  "update_metric a f s = s\<lparr> metric_objs := (metric_objs s)(a := f (metric_objs s a)) \<rparr>"

text \<open>\<open>for metric in metrics: metric.verbose_mode = verbose_mode\<close>, when a mode is given.\<close>

definition set_verbose_mode :: "bool option \<Rightarrow> addr list \<Rightarrow> state \<Rightarrow> state" where
  "set_verbose_mode verbose_mode metrics s =
     (case verbose_mode of
        None \<Rightarrow> s
      | Some v \<Rightarrow> fold (\<lambda>a. update_metric a (\<lambda>m. m\<lparr> m_verbose_mode := v \<rparr>)) metrics s)"

text \<open>\<open>for metric in metrics: metric.error = None\<close>.\<close>

definition reset_errors :: "addr list \<Rightarrow> state \<Rightarrow> state" where
  "reset_errors metrics s = fold (\<lambda>a. update_metric a (\<lambda>m. m\<lparr> m_error := None \<rparr>)) metrics s"

definition llm_metrics_of :: "world \<Rightarrow> addr list \<Rightarrow> addr list" where
  "llm_metrics_of w metrics = filter (\<lambda>a. metric_class w a = BaseMetric) metrics"

definition conversational_metrics_of :: "world \<Rightarrow> addr list \<Rightarrow> addr list" where
  "conversational_metrics_of w metrics =
     filter (\<lambda>a. metric_class w a \<noteq> BaseMetric \<and> metric_class w a = BaseConversationalMetric) metrics"

text \<open>The statements before the main loop, the same in both strategies. The list
  \<open>test_cases\<close> of the caller is changed in place; the model returns it.\<close>

definition prepare_batch ::
  "world \<Rightarrow> test_case list \<Rightarrow> addr list \<Rightarrow> bool \<Rightarrow> bool option \<Rightarrow> state \<Rightarrow> test_case list \<times> state" where
  "prepare_batch w test_cases metrics save_to_disk verbose_mode s =
     (let s1 = s\<lparr> disable_write_cache := (save_to_disk = False) \<rparr>;
          s2 = s1\<lparr> trm_save_to_disk := save_to_disk \<rparr>;
          s3 = set_verbose_mode verbose_mode metrics s2;
          s4 = s3\<lparr> llm_test_case_lookup_map := Map.empty \<rparr>
      in (append_messages 0 test_cases, s4))"

text \<open>\<open>try: metric.measure(test_case) except Exception as e: ...\<close> of the sequential
  strategy, with \<open>metric.async_mode = False\<close> before it.\<close>

definition measure_metric ::
  "world \<Rightarrow> bool \<Rightarrow> addr \<Rightarrow> test_case \<Rightarrow> state \<Rightarrow> exn + state" where
  "measure_metric w ignore_errors a test_case s =
     (let s1 = update_metric a (\<lambda>m. m\<lparr> m_async_mode := False \<rparr>) s;
          (m', raised) = metric_measure w (metric_objs s1 a) test_case (test_case_objs s1);
          s2 = update_metric a (\<lambda>m. m') s1
      in (case raised of
            None \<Rightarrow> Inr s2
          | Some msg \<Rightarrow>
              (if ignore_errors then
                 Inr (update_metric a (\<lambda>m. m\<lparr> m_error := Some msg, m_success := False \<rparr>) s2)
               else Inl (MetricException msg))))"

text \<open>The cache entry of a metric that has no error: a copy of its result with the
  evaluation cost set to 0, with the metric's configuration.\<close>

definition cache_metric_data :: "metric \<Rightarrow> MetricData \<Rightarrow> CachedMetricData" where
  "cache_metric_data m metric_data =
     \<lparr> cmd_metric_data = metric_data\<lparr> md_evaluation_cost := Some 0 \<rparr>,
       cmd_metric_configuration = create_metric_configuration m \<rparr>"

definition append_cached :: "CachedMetricData \<Rightarrow> CachedTestCase \<Rightarrow> CachedTestCase" where
  "append_cached c t = t\<lparr> cached_metrics_data := cached_metrics_data t @ [c] \<rparr>"

section \<open>The sequential strategy: \<open>execute_test_cases\<close>\<close>

text \<open>The body of \<open>for metric in llm_metrics\<close> for the metric at address \<open>a\<close> and the test
  case at address \<open>tc\<close>. The loop carries the record of the unit, the new cache entry, the
  flag \<open>read_all_metrics_from_cache\<close> and the state.\<close>

definition llm_metric_step ::
  "world \<Rightarrow> bool \<Rightarrow> addr \<Rightarrow> CachedTestCase option \<Rightarrow> addr
     \<Rightarrow> LLMApiTestCase \<times> CachedTestCase \<times> bool \<times> state
     \<Rightarrow> exn + LLMApiTestCase \<times> CachedTestCase \<times> bool \<times> state" where
  "llm_metric_step w ignore_errors tc cached_test_case a acc =
     (case acc of (api_test_case, new_cached_test_case, read_all_metrics_from_cache, s) \<Rightarrow>
       (let from_cache =
              (case cached_test_case of
                 None \<Rightarrow> None
               | Some c \<Rightarrow>
                   (case get_metric_data (metric_objs s a) c of
                      None \<Rightarrow> None
                    | Some cached_metric_data \<Rightarrow> Some (cmd_metric_data cached_metric_data)));
            measured =
              (case from_cache of
                 Some metric_data \<Rightarrow> Inr (metric_data, read_all_metrics_from_cache, s)
               | None \<Rightarrow>
                   (case measure_metric w ignore_errors a (LLM tc) s of
                      Inl e \<Rightarrow> Inl e
                    | Inr s1 \<Rightarrow> Inr (create_metric_data (metric_objs s1 a), False, s1)))
        in (case measured of
              Inl e \<Rightarrow> Inl e
            | Inr (metric_data, read_all, s1) \<Rightarrow>
                Inr (update_metric_data metric_data api_test_case,
                     (if m_error (metric_objs s1 a) = None then
                        append_cached (cache_metric_data (metric_objs s1 a) metric_data)
                          new_cached_test_case
                      else new_cached_test_case),
                     read_all, s1))))"

fun llm_metric_loop ::
  "world \<Rightarrow> bool \<Rightarrow> addr \<Rightarrow> CachedTestCase option \<Rightarrow> addr list
     \<Rightarrow> LLMApiTestCase \<times> CachedTestCase \<times> bool \<times> state
     \<Rightarrow> exn + LLMApiTestCase \<times> CachedTestCase \<times> bool \<times> state" where
  "llm_metric_loop w ignore_errors tc cached_test_case [] acc = Inr acc"
| "llm_metric_loop w ignore_errors tc cached_test_case (a # as) acc =
     (case llm_metric_step w ignore_errors tc cached_test_case a acc of
        Inl e \<Rightarrow> Inl e
      | Inr acc' \<Rightarrow> llm_metric_loop w ignore_errors tc cached_test_case as acc')"

text \<open>An element of \<open>test_results\<close> while the batch runs. The \<open>metrics_data\<close> of a
  \<open>TestResult\<close> is the list object of the record it was made from. A record made for the
  unit alone is not touched again. A record that came from \<open>llm_test_case_lookup_map\<close> is
  found again when the same \<open>LLMTestCase\<close> object is executed once more, and the metric
  results of that later unit are appended to the same list: the second component is the
  key of such a record in the map, and \<open>None\<close> for a record of the unit alone.\<close>

type_synonym test_result_entry = "TestResult \<times> addr option"

text \<open>What the caller reads from an element of the returned \<open>test_results\<close>: the list of a
  record in the lookup map as the batch left it.\<close>

definition read_test_result :: "state \<Rightarrow> test_result_entry \<Rightarrow> TestResult" where
  "read_test_result s entry =
     (case entry of (test_result, alias) \<Rightarrow>
       (case alias of
          None \<Rightarrow> test_result
        | Some a \<Rightarrow>
            (case llm_test_case_lookup_map s a of
               None \<Rightarrow> test_result
             | Some api_test_case \<Rightarrow>
                 test_result\<lparr> tr_metrics_data := api_metrics_data api_test_case \<rparr>)))"

text \<open>What follows the metrics of a single-turn unit in both strategies: the record goes
  to the test run, the new cache entry to both tiers, and the result of the unit is
  appended to \<open>test_results\<close>. The record is an object: when it came from
  \<open>llm_test_case_lookup_map\<close>, the map holds the same object and sees its changes.\<close>

definition finish_llm_test_case ::
  "addr \<Rightarrow> bool \<Rightarrow> LLMApiTestCase \<Rightarrow> CachedTestCase \<Rightarrow> test_result_entry list \<Rightarrow> state
     \<Rightarrow> test_result_entry list \<times> state" where
  "finish_llm_test_case tc in_lookup_map api_test_case new_cached_test_case test_results s =
     (let s1 = (if in_lookup_map then
                  s\<lparr> llm_test_case_lookup_map :=
                       (llm_test_case_lookup_map s)(tc \<mapsto> api_test_case) \<rparr>
                else s);
          s2 = update_test_run (LLMApi api_test_case) (LLM tc) s1;
          s3 = cache_test_case (test_case_objs s2 tc) new_cached_test_case
                 (trm_hyperparameters s2) False s2;
          s4 = cache_test_case (test_case_objs s3 tc) new_cached_test_case
                 (trm_hyperparameters s3) True s3
      in (test_results
            @ [(test_result_of api_test_case, if in_lookup_map then Some tc else None)], s4))"

text \<open>The start of a single-turn unit in both strategies: the lookup in the cache when
  \<open>use_cache\<close> is set, the record of the unit, and the first reading of the clock. It gives
  the cached entry, whether the record came from \<open>llm_test_case_lookup_map\<close>, the record,
  the start time and the state.\<close>

definition begin_llm_test_case ::
  "world \<Rightarrow> bool \<Rightarrow> addr \<Rightarrow> int \<Rightarrow> state
     \<Rightarrow> CachedTestCase option \<times> bool \<times> LLMApiTestCase \<times> real \<times> state" where
  "begin_llm_test_case w use_cache tc count s =
     (let cached_test_case =
            (if use_cache then
               get_cached_test_case (test_case_objs s tc) (trm_hyperparameters s) s
             else None);
          in_lookup_map = (llm_test_case_lookup_map s tc \<noteq> None);
          (api_test_case, s1) = create_api_test_case_llm w tc count None None None s;
          (test_start_time, s2) = read_perf_counter w s1
      in (cached_test_case, in_lookup_map, api_test_case, test_start_time, s2))"

text \<open>The branch of the main loop for an \<open>LLMTestCase\<close>. The loop carries the two counters,
  \<open>test_results\<close> and the state.\<close>

definition execute_llm_test_case ::
  "world \<Rightarrow> bool \<Rightarrow> bool \<Rightarrow> addr list \<Rightarrow> addr
     \<Rightarrow> int \<times> int \<times> test_result_entry list \<times> state
     \<Rightarrow> exn + int \<times> int \<times> test_result_entry list \<times> state" where
  "execute_llm_test_case w ignore_errors use_cache llm_metrics tc acc =
     (case acc of (llm_test_case_count, conversational_test_case_count, test_results, s) \<Rightarrow>
       (if length llm_metrics = 0 then Inr acc
        else
          (case begin_llm_test_case w use_cache tc (llm_test_case_count + 1) s of
             (cached_test_case, in_lookup_map, api_test_case, test_start_time, s2) \<Rightarrow>
               (case llm_metric_loop w ignore_errors tc cached_test_case llm_metrics
                       (api_test_case, \<lparr> cached_metrics_data = [] \<rparr>, True, s2) of
                  Inl e \<Rightarrow> Inl e
                | Inr (api1, new_cached, read_all_metrics_from_cache, s3) \<Rightarrow>
                    (let (test_end_time, s4) = read_perf_counter w s3;
                         run_duration =
                           (if read_all_metrics_from_cache then 0
                            else test_end_time - test_start_time);
                         api2 = update_run_duration run_duration api1;
                         (test_results', s5) =
                           finish_llm_test_case tc in_lookup_map api2 new_cached test_results s4
                     in Inr (llm_test_case_count + 1, conversational_test_case_count,
                             test_results', s5))))))"

text \<open>The body of \<open>for metric in conversational_metrics\<close> of the sequential strategy.\<close>

definition conversational_metric_step ::
  "world \<Rightarrow> bool \<Rightarrow> ConversationalTestCase \<Rightarrow> addr
     \<Rightarrow> ConversationalApiTestCase \<times> state \<Rightarrow> exn + ConversationalApiTestCase \<times> state" where
  "conversational_metric_step w ignore_errors c a acc =
     (case acc of (api_test_case, s) \<Rightarrow>
       (if metric_class w a = BaseConversationalMetric then
          (case measure_metric w ignore_errors a (Conversational c) s of
             Inl e \<Rightarrow> Inl e
           | Inr s1 \<Rightarrow>
               Inr (update_metric_data_conversational
                      (create_metric_data (metric_objs s1 a)) api_test_case, s1))
        else Inr acc))"

fun conversational_metric_loop ::
  "world \<Rightarrow> bool \<Rightarrow> ConversationalTestCase \<Rightarrow> addr list
     \<Rightarrow> ConversationalApiTestCase \<times> state \<Rightarrow> exn + ConversationalApiTestCase \<times> state" where
  "conversational_metric_loop w ignore_errors c [] acc = Inr acc"
| "conversational_metric_loop w ignore_errors c (a # as) acc =
     (case conversational_metric_step w ignore_errors c a acc of
        Inl e \<Rightarrow> Inl e
      | Inr acc' \<Rightarrow> conversational_metric_loop w ignore_errors c as acc')"

text \<open>The branch of the main loop for a \<open>ConversationalTestCase\<close>: nothing is appended to
  \<open>test_results\<close>.\<close>

definition execute_conversational_test_case ::
  "world \<Rightarrow> bool \<Rightarrow> addr list \<Rightarrow> ConversationalTestCase
     \<Rightarrow> int \<times> int \<times> test_result_entry list \<times> state
     \<Rightarrow> exn + int \<times> int \<times> test_result_entry list \<times> state" where
  "execute_conversational_test_case w ignore_errors conversational_metrics c acc =
     (case acc of (llm_test_case_count, conversational_test_case_count, test_results, s) \<Rightarrow>
       (let count = conversational_test_case_count + 1;
            (api_test_case, s1) = create_api_test_case_conversational w c count s;
            (test_start_time, s2) = read_perf_counter w s1
        in (case conversational_metric_loop w ignore_errors c conversational_metrics
                   (api_test_case, s2) of
              Inl e \<Rightarrow> Inl e
            | Inr (api1, s3) \<Rightarrow>
                (let (test_end_time, s4) = read_perf_counter w s3;
                     api2 = (if length conversational_metrics > 0 then
                               update_run_duration_conversational
                                 (test_end_time - test_start_time) api1
                             else api1);
                     s5 = update_test_run (ConversationalApi api2) (Conversational c) s4
                 in Inr (llm_test_case_count, count, test_results, s5)))))"

text \<open>The body of the main loop: the errors of all metrics are reset, then the unit is
  executed by the branch for its class.\<close>

definition execute_test_case ::
  "world \<Rightarrow> addr list \<Rightarrow> bool \<Rightarrow> bool \<Rightarrow> test_case
     \<Rightarrow> int \<times> int \<times> test_result_entry list \<times> state
     \<Rightarrow> exn + int \<times> int \<times> test_result_entry list \<times> state" where
  "execute_test_case w metrics ignore_errors use_cache test_case acc =
     (case acc of (llm_test_case_count, conversational_test_case_count, test_results, s) \<Rightarrow>
       (let acc1 = (llm_test_case_count, conversational_test_case_count, test_results,
                    reset_errors metrics s)
        in (case test_case of
              LLM tc \<Rightarrow>
                execute_llm_test_case w ignore_errors use_cache (llm_metrics_of w metrics) tc acc1
            | Conversational c \<Rightarrow>
                execute_conversational_test_case w ignore_errors
                  (conversational_metrics_of w metrics) c acc1)))"

fun execute_loop ::
  "world \<Rightarrow> addr list \<Rightarrow> bool \<Rightarrow> bool \<Rightarrow> test_case list
     \<Rightarrow> int \<times> int \<times> test_result_entry list \<times> state
     \<Rightarrow> exn + int \<times> int \<times> test_result_entry list \<times> state" where
  "execute_loop w metrics ignore_errors use_cache [] acc = Inr acc"
| "execute_loop w metrics ignore_errors use_cache (test_case # rest) acc =
     (case execute_test_case w metrics ignore_errors use_cache test_case acc of
        Inl e \<Rightarrow> Inl e
      | Inr acc' \<Rightarrow> execute_loop w metrics ignore_errors use_cache rest acc')"

text \<open>\<open>execute_test_cases\<close> gives the caller's list as the call leaves it, and either the
  exception that left the call or the returned \<open>test_results\<close>, as the caller reads them,
  with the final state.\<close>

definition execute_test_cases ::
  "world \<Rightarrow> test_case list \<Rightarrow> addr list \<Rightarrow> bool \<Rightarrow> bool \<Rightarrow> bool \<Rightarrow> bool option \<Rightarrow> state
     \<Rightarrow> test_case list \<times> (exn + TestResult list \<times> state)" where
  "execute_test_cases w test_cases metrics ignore_errors use_cache save_to_disk verbose_mode s =
     (let (test_cases', s1) = prepare_batch w test_cases metrics save_to_disk verbose_mode s
      in (test_cases',
          (case execute_loop w metrics ignore_errors use_cache test_cases' (-1, -1, [], s1) of
             Inl e \<Rightarrow> Inl e
           | Inr (llm_test_case_count, conversational_test_case_count, test_results, s2) \<Rightarrow>
               Inr (map (read_test_result s2) test_results, s2))))"

section \<open>The concurrent strategy: \<open>a_execute_test_cases\<close>\<close>

text \<open>Modelled from the spec: \<open>measure_metrics_with_indicator\<close> is not part of the module.
  It is the Metric Runner of the spec applied to every metric of the unit: with a cached
  result whose configuration matches, "this is a cache hit, no invocation occurs";
  otherwise the runner resets the metric's error, forces synchronous mode and invokes
  \<open>measure\<close>, and a raised exception is kept on the metric when \<open>ignoreErrors\<close> is true and
  "propagates and aborts the batch" when it is false. The caller reads the outcome from
  the fields of the metric object, so a cache hit is delivered by writing the cached result
  into them. The metrics of a unit are awaited as a group; the model runs them in the
  order of the list.\<close>

definition load_metric_data :: "MetricData \<Rightarrow> metric \<Rightarrow> metric" where
  "load_metric_data md m =
     m\<lparr> m_score := md_score md, m_reason := md_reason md, m_success := md_success md,
        m_evaluation_cost := md_evaluation_cost md, m_verbose_logs := md_verbose_logs md \<rparr>"

definition run_metric ::
  "world \<Rightarrow> test_case \<Rightarrow> CachedTestCase option \<Rightarrow> bool \<Rightarrow> addr \<Rightarrow> state \<Rightarrow> exn + state" where
  "run_metric w test_case cached_test_case ignore_errors a s =
     (case (case cached_test_case of
              None \<Rightarrow> None
            | Some c \<Rightarrow> get_metric_data (metric_objs s a) c) of
        Some cached_metric_data \<Rightarrow>
          Inr (update_metric a (load_metric_data (cmd_metric_data cached_metric_data)) s)
      | None \<Rightarrow>
          measure_metric w ignore_errors a test_case
            (update_metric a (\<lambda>m. m\<lparr> m_error := None \<rparr>) s))"

fun measure_metrics_with_indicator ::
  "world \<Rightarrow> addr list \<Rightarrow> test_case \<Rightarrow> CachedTestCase option \<Rightarrow> bool \<Rightarrow> state \<Rightarrow> exn + state" where
  "measure_metrics_with_indicator w [] test_case cached_test_case ignore_errors s = Inr s"
| "measure_metrics_with_indicator w (a # as) test_case cached_test_case ignore_errors s =
     (case run_metric w test_case cached_test_case ignore_errors a s of
        Inl e \<Rightarrow> Inl e
      | Inr s1 \<Rightarrow> measure_metrics_with_indicator w as test_case cached_test_case ignore_errors s1)"

text \<open>\<open>for metric in llm_metrics\<close> after the metrics were measured: the results are read
  from the metric objects.\<close>

fun a_collect_llm_metrics ::
  "state \<Rightarrow> addr list \<Rightarrow> LLMApiTestCase \<times> CachedTestCase \<Rightarrow> LLMApiTestCase \<times> CachedTestCase" where
  "a_collect_llm_metrics s [] acc = acc"
| "a_collect_llm_metrics s (a # as) (api_test_case, new_cached_test_case) =
     (let metric_data = create_metric_data (metric_objs s a)
      in a_collect_llm_metrics s as
           (update_metric_data metric_data api_test_case,
            (if m_error (metric_objs s a) = None then
               append_cached (cache_metric_data (metric_objs s a) metric_data)
                 new_cached_test_case
             else new_cached_test_case)))"

definition a_execute_llm_test_case ::
  "world \<Rightarrow> addr list \<Rightarrow> bool \<Rightarrow> bool \<Rightarrow> addr list \<Rightarrow> addr
     \<Rightarrow> int \<times> int \<times> test_result_entry list \<times> state
     \<Rightarrow> exn + int \<times> int \<times> test_result_entry list \<times> state" where
  "a_execute_llm_test_case w metrics ignore_errors use_cache llm_metrics tc acc =
     (case acc of (llm_test_case_count, conversational_test_case_count, test_results, s) \<Rightarrow>
       (if length llm_metrics = 0 then Inr acc
        else
          (case begin_llm_test_case w use_cache tc (llm_test_case_count + 1)
                  (reset_errors metrics s) of
             (cached_test_case, in_lookup_map, api_test_case, test_start_time, s2) \<Rightarrow>
               (case measure_metrics_with_indicator w llm_metrics (LLM tc) cached_test_case
                       ignore_errors s2 of
                  Inl e \<Rightarrow> Inl e
                | Inr s3 \<Rightarrow>
                    (let (api1, new_cached) =
                           a_collect_llm_metrics s3 llm_metrics
                             (api_test_case, \<lparr> cached_metrics_data = [] \<rparr>);
                         (test_end_time, s4) = read_perf_counter w s3;
                         run_duration = test_end_time - test_start_time;
                         run_duration = (if run_duration < 1 then 0 else run_duration);
                         api2 = update_run_duration run_duration api1;
                         (test_results', s5) =
                           finish_llm_test_case tc in_lookup_map api2 new_cached test_results s4
                     in Inr (llm_test_case_count + 1, conversational_test_case_count,
                             test_results', s5))))))"

fun a_collect_conversational_metrics ::
  "state \<Rightarrow> addr list \<Rightarrow> ConversationalApiTestCase \<Rightarrow> ConversationalApiTestCase" where
  "a_collect_conversational_metrics s [] api_test_case = api_test_case"
| "a_collect_conversational_metrics s (a # as) api_test_case =
     a_collect_conversational_metrics s as
       (update_metric_data_conversational (create_metric_data (metric_objs s a)) api_test_case)"

definition a_execute_conversational_test_case ::
  "world \<Rightarrow> bool \<Rightarrow> addr list \<Rightarrow> ConversationalTestCase
     \<Rightarrow> int \<times> int \<times> test_result_entry list \<times> state
     \<Rightarrow> exn + int \<times> int \<times> test_result_entry list \<times> state" where
  "a_execute_conversational_test_case w ignore_errors conversational_metrics c acc =
     (case acc of (llm_test_case_count, conversational_test_case_count, test_results, s) \<Rightarrow>
       (let count = conversational_test_case_count + 1;
            (api_test_case, s1) = create_api_test_case_conversational w c count s;
            (test_start_time, s2) = read_perf_counter w s1
        in (case measure_metrics_with_indicator w conversational_metrics (Conversational c)
                   None ignore_errors s2 of
              Inl e \<Rightarrow> Inl e
            | Inr s3 \<Rightarrow>
                (let api1 = a_collect_conversational_metrics s3 conversational_metrics
                              api_test_case;
                     (test_end_time, s4) = read_perf_counter w s3;
                     api2 = (if length conversational_metrics > 0 then
                               update_run_duration_conversational
                                 (test_end_time - test_start_time) api1
                             else api1);
                     s5 = update_test_run (ConversationalApi api2) (Conversational c) s4
                 in Inr (llm_test_case_count, count, test_results, s5)))))"

definition a_execute_test_case ::
  "world \<Rightarrow> addr list \<Rightarrow> bool \<Rightarrow> bool \<Rightarrow> test_case
     \<Rightarrow> int \<times> int \<times> test_result_entry list \<times> state
     \<Rightarrow> exn + int \<times> int \<times> test_result_entry list \<times> state" where
  "a_execute_test_case w metrics ignore_errors use_cache test_case acc =
     (case test_case of
        LLM tc \<Rightarrow>
          a_execute_llm_test_case w metrics ignore_errors use_cache (llm_metrics_of w metrics) tc acc
      | Conversational c \<Rightarrow>
          a_execute_conversational_test_case w ignore_errors
            (conversational_metrics_of w metrics) c acc)"

fun a_execute_loop ::
  "world \<Rightarrow> addr list \<Rightarrow> bool \<Rightarrow> bool \<Rightarrow> test_case list
     \<Rightarrow> int \<times> int \<times> test_result_entry list \<times> state
     \<Rightarrow> exn + int \<times> int \<times> test_result_entry list \<times> state" where
  "a_execute_loop w metrics ignore_errors use_cache [] acc = Inr acc"
| "a_execute_loop w metrics ignore_errors use_cache (test_case # rest) acc =
     (case a_execute_test_case w metrics ignore_errors use_cache test_case acc of
        Inl e \<Rightarrow> Inl e
      | Inr acc' \<Rightarrow> a_execute_loop w metrics ignore_errors use_cache rest acc')"

definition a_execute_test_cases ::
  "world \<Rightarrow> test_case list \<Rightarrow> addr list \<Rightarrow> bool \<Rightarrow> bool \<Rightarrow> bool \<Rightarrow> bool option \<Rightarrow> state
     \<Rightarrow> test_case list \<times> (exn + TestResult list \<times> state)" where
  "a_execute_test_cases w test_cases metrics ignore_errors use_cache save_to_disk verbose_mode s =
     (let (test_cases', s1) = prepare_batch w test_cases metrics save_to_disk verbose_mode s
      in (test_cases',
          (case a_execute_loop w metrics ignore_errors use_cache test_cases' (-1, -1, [], s1) of
             Inl e \<Rightarrow> Inl e
           | Inr (llm_test_case_count, conversational_test_case_count, test_results, s2) \<Rightarrow>
               Inr (map (read_test_result s2) test_results, s2))))"

section \<open>\<open>assert_test\<close>\<close>

text \<open>The metrics that \<open>assert_test\<close> reports: those with an error, and those whose
  success flag is false. \<open>MetricData.success\<close> is a stored boolean, so the \<open>except\<close> branch
  around its read is never taken.\<close>

fun failed_metrics :: "MetricData list \<Rightarrow> MetricData list" where
  "failed_metrics [] = []"
| "failed_metrics (metric_data # rest) =
     (if md_error metric_data \<noteq> None then metric_data # failed_metrics rest
      else (if \<not> md_success metric_data then metric_data # failed_metrics rest
            else failed_metrics rest))"

definition str_bool :: "bool \<Rightarrow> string" where
  "str_bool b = (if b then ''True'' else ''False'')"

definition str_optional :: "('a \<Rightarrow> string) \<Rightarrow> 'a option \<Rightarrow> string" where
  "str_optional f x = (case x of None \<Rightarrow> ''None'' | Some v \<Rightarrow> f v)"

definition failed_metric_str :: "world \<Rightarrow> MetricData \<Rightarrow> string" where
  "failed_metric_str w md =
     md_name md @ '' (score: '' @ str_optional (str_float w) (md_score md)
       @ '', threshold: '' @ str_float w (md_threshold md)
       @ '', strict: '' @ str_bool (md_strict_mode md)
       @ '', error: '' @ str_optional (\<lambda>e. e) (md_error md) @ '')''"

fun join :: "string \<Rightarrow> string list \<Rightarrow> string" where
  "join sep [] = []"
| "join sep [x] = x"
| "join sep (x # y # ys) = x @ sep @ join sep (y # ys)"

text \<open>The part of \<open>assert_test\<close> after the batch of one has run: \<open>[0]\<close> of the returned list,
  then the check of its success flag.\<close>

definition assert_result :: "world \<Rightarrow> TestResult list \<Rightarrow> exn + unit" where
  "assert_result w test_results =
     (case test_results of
        [] \<Rightarrow> Inl IndexError
      | test_result # rest \<Rightarrow>
          (if tr_success test_result \<noteq> Some True then
             (case tr_metrics_data test_result of
                None \<Rightarrow> Inl TypeError
              | Some metrics_data \<Rightarrow>
                  Inl (AssertionError
                        (''Metrics: ''
                           @ join '', '' (map (failed_metric_str w) (failed_metrics metrics_data))
                           @ '' failed.'')))
           else Inr ()))"

definition assert_test :: "world \<Rightarrow> test_case \<Rightarrow> addr list \<Rightarrow> bool \<Rightarrow> state \<Rightarrow> exn + unit" where
  "assert_test w test_case metrics run_async s =
     (case snd ((if run_async then a_execute_test_cases else execute_test_cases)
                  w [test_case] metrics (should_ignore_errors w) (should_use_cache w)
                  (get_is_running_deepeval w) (should_verbose_print w) s) of
        Inl e \<Rightarrow> Inl e
      | Inr (test_results, s') \<Rightarrow> assert_result w test_results)"

section \<open>Reporting\<close>

text \<open>The mark that \<open>print_test_result\<close> prints for a metric result; here too the read of
  the stored flag does not raise.\<close>

definition print_successful :: "MetricData \<Rightarrow> bool" where
  "print_successful metric_data =
     (if md_error metric_data \<noteq> None then False
      else (if \<not> md_success metric_data then False else True))"

text \<open>Python dictionaries keep the order in which the keys were inserted.\<close>

fun dict_add :: "string \<Rightarrow> nat \<Rightarrow> (string \<times> nat) list \<Rightarrow> (string \<times> nat) list" where
  "dict_add k n [] = []"
| "dict_add k n ((k', v) # d) = (if k' = k then (k', v + n) # d else (k', v) # dict_add k n d)"

text \<open>The body of the inner loop of \<open>aggregate_metric_pass_rates\<close>, on the two dictionaries
  \<open>metric_counts\<close> and \<open>metric_successes\<close>. The stored success flag is read with no
  \<open>try\<close> around it.\<close>

definition count_metric ::
  "MetricData \<Rightarrow> (string \<times> nat) list \<times> (string \<times> nat) list
     \<Rightarrow> (string \<times> nat) list \<times> (string \<times> nat) list" where
  "count_metric metric_data acc =
     (case acc of (metric_counts, metric_successes) \<Rightarrow>
       (let metric_name = md_name metric_data;
            (counts0, successes0) =
              (if metric_name \<notin> fst ` set metric_counts then
                 (metric_counts @ [(metric_name, 0)], metric_successes @ [(metric_name, 0)])
               else (metric_counts, metric_successes));
            counts1 = dict_add metric_name 1 counts0
        in (counts1,
            (if md_success metric_data then dict_add metric_name 1 successes0
             else successes0))))"

fun count_metrics ::
  "MetricData list \<Rightarrow> (string \<times> nat) list \<times> (string \<times> nat) list
     \<Rightarrow> (string \<times> nat) list \<times> (string \<times> nat) list" where
  "count_metrics [] acc = acc"
| "count_metrics (metric_data # rest) acc = count_metrics rest (count_metric metric_data acc)"

fun count_results ::
  "TestResult list \<Rightarrow> (string \<times> nat) list \<times> (string \<times> nat) list
     \<Rightarrow> exn + (string \<times> nat) list \<times> (string \<times> nat) list" where
  "count_results [] acc = Inr acc"
| "count_results (result # rest) acc =
     (case tr_metrics_data result of
        None \<Rightarrow> Inl TypeError
      | Some metrics_data \<Rightarrow> count_results rest (count_metrics metrics_data acc))"

text \<open>The dictionary comprehension \<open>metric_successes[metric] / metric_counts[metric]\<close>.\<close>

fun pass_rates ::
  "(string \<times> nat) list \<Rightarrow> (string \<times> nat) list \<Rightarrow> exn + (string \<times> real) list" where
  "pass_rates [] metric_successes = Inr []"
| "pass_rates ((metric, n) # rest) metric_successes =
     (case map_of metric_successes metric of
        None \<Rightarrow> Inl KeyError
      | Some k \<Rightarrow>
          (if n = 0 then Inl ZeroDivisionError
           else (case pass_rates rest metric_successes of
                   Inl e \<Rightarrow> Inl e
                 | Inr rates \<Rightarrow> Inr ((metric, real k / real n) # rates))))"

definition aggregate_metric_pass_rates :: "TestResult list \<Rightarrow> exn + (string \<times> real) list" where
  "aggregate_metric_pass_rates test_results =
     (case count_results test_results ([], []) of
        Inl e \<Rightarrow> Inl e
      | Inr (metric_counts, metric_successes) \<Rightarrow> pass_rates metric_counts metric_successes)"

section \<open>What the appending loop adds\<close>

fun appended_messages :: "test_case \<Rightarrow> test_case list" where
  "appended_messages (LLM a) = []"
| "appended_messages (Conversational c) = evaluated_messages c"

fun is_llm :: "test_case \<Rightarrow> bool" where
  "is_llm (LLM a) = True"
| "is_llm (Conversational c) = False"

section \<open>A concrete run\<close>

text \<open>A world and a state for running the definitions: the metric at address 1 is a
  conversational metric, every other one a single-turn metric. A single-turn metric
  raises on the input \<open>boom\<close>, succeeds with score 1 on the input \<open>good\<close> and fails with
  score 0 on any other input. The clock advances by half a second between two readings.\<close>

definition example_measure ::
  "metric \<Rightarrow> test_case \<Rightarrow> (addr \<Rightarrow> LLMTestCase) \<Rightarrow> metric \<times> string option" where
  "example_measure m test_case objs =
     (case test_case of
        LLM a \<Rightarrow>
          (if tc_input (objs a) = ''boom'' then (m, Some ''boom'')
           else if tc_input (objs a) = ''good'' then
             (m\<lparr> m_score := Some 1, m_success := True \<rparr>, None)
           else (m\<lparr> m_score := Some 0, m_success := False \<rparr>, None))
      | Conversational c \<Rightarrow> (m\<lparr> m_score := Some 1, m_success := True \<rparr>, None))"

definition example_world :: world where
  "example_world =
     \<lparr> metric_class = (\<lambda>a. if a = 1 then BaseConversationalMetric else BaseMetric),
       metric_measure = example_measure,
       perf_counter = (\<lambda>n. real n / 2),
       PYTEST_RUN_TEST_NAME = None,
       get_trace_stack = None,
       should_ignore_errors = False,
       should_use_cache = False,
       should_verbose_print = None,
       get_is_running_deepeval = False,
       str_float = (\<lambda>x. ''0.5'') \<rparr>"

definition example_metric :: metric where
  "example_metric =
     \<lparr> m_name = ''Metric'', m_threshold = 1 / 2, m_strict_mode = False,
       m_evaluation_model = None, m_score = None, m_reason = None, m_success = False,
       m_error = None, m_evaluation_cost = None, m_verbose_logs = None,
       m_async_mode = True, m_verbose_mode = False \<rparr>"

definition example_test_case :: "string \<Rightarrow> LLMTestCase" where
  "example_test_case i =
     \<lparr> tc_input = i, tc_actual_output = ''output'', tc_expected_output = None,
       tc_context = None, tc_retrieval_context = None, tc_tools_used = None,
       tc_expected_tools = None, tc_additional_metadata = Some [(''own'', ''data'')],
       tc_comments = Some ''own comment'', tc_dataset_rank = None \<rparr>"

text \<open>The test case objects: \<open>good\<close> at address 0, \<open>bad\<close> at address 1, \<open>boom\<close> at address 2
  and \<open>good\<close> elsewhere.\<close>

definition example_state :: state where
  "example_state =
     \<lparr> metric_objs = (\<lambda>a. example_metric),
       test_case_objs =
         (\<lambda>a. example_test_case
                (if a = 1 then ''bad'' else if a = 2 then ''boom'' else ''good'')),
       llm_test_case_lookup_map = Map.empty,
       next_object_id = 0,
       perf_counter_calls = 0,
       disable_write_cache = False,
       durable_cache = Map.empty,
       transient_cache = Map.empty,
       trm_save_to_disk = False,
       trm_hyperparameters = None,
       trm_test_run = [] \<rparr>"

definition example_conversation :: "addr list \<Rightarrow> ConversationalTestCase" where
  "example_conversation as =
     \<lparr> messages = map (\<lambda>a. \<lparr> should_evaluate = True, llm_test_case = a \<rparr>) as,
       conv_additional_metadata = Some [(''conversation'', ''data'')],
       conv_comments = Some ''conversation comment'',
       conv_dataset_rank = None \<rparr>"

text \<open>The records handed to the test run by a call that returned, in the order of the
  calls of \<open>update_test_run\<close>.\<close>

definition recorded ::
  "test_case list \<times> (exn + TestResult list \<times> state) \<Rightarrow> (api_test_case \<times> test_case) list" where
  "recorded outcome =
     (case snd outcome of Inl e \<Rightarrow> [] | Inr (test_results, s) \<Rightarrow> trm_test_run s)"

definition run_duration_of :: "api_test_case \<Rightarrow> real option" where
  "run_duration_of r =
     (case r of LLMApi x \<Rightarrow> api_run_duration x | ConversationalApi c \<Rightarrow> Some (capi_run_duration c))"

definition success_of :: "api_test_case \<Rightarrow> bool option" where
  "success_of r =
     (case r of LLMApi x \<Rightarrow> api_success x | ConversationalApi c \<Rightarrow> Some (capi_success c))"

section \<open>Unfolding a concrete run\<close>

lemmas exec_defs =
  execute_test_cases_def a_execute_test_cases_def prepare_batch_def set_verbose_mode_def
  execute_test_case_def a_execute_test_case_def execute_llm_test_case_def
  a_execute_llm_test_case_def execute_conversational_test_case_def
  a_execute_conversational_test_case_def begin_llm_test_case_def finish_llm_test_case_def
  llm_metric_step_def conversational_metric_step_def measure_metric_def run_metric_def
  reset_errors_def update_metric_def read_perf_counter_def llm_metrics_of_def
  conversational_metrics_of_def create_api_test_case_llm_def
  create_api_test_case_conversational_def truthy_id_def update_metric_data_def
  update_metric_data_conversational_def update_run_duration_def
  update_run_duration_conversational_def update_test_run_def cache_test_case_def
  get_cached_test_case_def cache_key_of_def create_metric_data_def is_successful_def
  cache_metric_data_def append_cached_def create_metric_configuration_def
  get_metric_data_def test_result_of_def read_test_result_def  load_metric_data_def
  evaluated_messages_def append_messages.simps assert_test_def assert_result_def
  example_world_def example_state_def example_metric_def example_test_case_def
  example_conversation_def example_measure_def Let_def recorded_def run_duration_of_def
  success_of_def

section \<open>The caller's list after the appending loop\<close>

lemma appended_of_evaluated: "concat (map appended_messages (evaluated_messages c)) = []"
  by (simp add: evaluated_messages_def comp_def)

lemma append_messages_eq:
  "append_messages i tcs = tcs @ concat (map appended_messages (drop i tcs))"
proof (induction i tcs rule: append_messages.induct)
  case (1 i test_cases)
  show ?case
  proof (cases "i < length test_cases")
    case False
    then show ?thesis by (simp add: append_messages.simps)
  next
    case True
    then have d: "drop i test_cases = test_cases ! i # drop (Suc i) test_cases"
      by (simp add: Cons_nth_drop_Suc)
    show ?thesis
    proof (cases "test_cases ! i")
      case (LLM a)
      with True 1 d show ?thesis
        by (subst append_messages.simps) simp
    next
      case (Conversational c)
      with True 1 d show ?thesis
        by (subst append_messages.simps) (simp add: appended_of_evaluated)
    qed
  qed
qed

lemma fst_execute_test_cases:
  "fst (execute_test_cases w tcs ms ie uc sd vm s) = tcs @ concat (map appended_messages tcs)"
  by (simp add: execute_test_cases_def prepare_batch_def Let_def append_messages_eq)

lemma fst_a_execute_test_cases:
  "fst (a_execute_test_cases w tcs ms ie uc sd vm s) = tcs @ concat (map appended_messages tcs)"
  by (simp add: a_execute_test_cases_def prepare_batch_def Let_def append_messages_eq)

lemma evaluated_message_appended:
  assumes "Conversational c \<in> set tcs" "m \<in> set (messages c)" "should_evaluate m"
  shows "LLM (llm_test_case m) \<in> set (concat (map appended_messages tcs))"
proof -
  from assms(2,3) have "LLM (llm_test_case m) \<in> set (appended_messages (Conversational c))"
    by (auto simp: evaluated_messages_def)
  with assms(1) show ?thesis
    by (auto intro!: bexI [of _ "Conversational c"])
qed

text \<open>
  Claim C9. When the batch holds a conversational test case with a message flagged
  should-evaluate, both \<open>execute_test_cases\<close> and \<open>a_execute_test_cases\<close> leave the caller's
  list as the list they were given followed by the appended message test cases (that
  message among them), so the list is strictly longer than before the call, whether the
  call returns or raises.
\<close>

theorem test_cases_grow_in_place:
  assumes "Conversational c \<in> set test_cases"
    and "m \<in> set (messages c)" and "should_evaluate m"
  shows "fst (execute_test_cases w test_cases metrics ignore_errors use_cache save_to_disk verbose_mode s)
           = test_cases @ concat (map appended_messages test_cases)
       \<and> fst (a_execute_test_cases w test_cases metrics ignore_errors use_cache save_to_disk verbose_mode s)
           = test_cases @ concat (map appended_messages test_cases)
       \<and> LLM (llm_test_case m) \<in> set (concat (map appended_messages test_cases))
       \<and> length test_cases
           < length (fst (execute_test_cases w test_cases metrics ignore_errors use_cache save_to_disk verbose_mode s))
       \<and> length test_cases
           < length (fst (a_execute_test_cases w test_cases metrics ignore_errors use_cache save_to_disk verbose_mode s))"
proof -
  have mem: "LLM (llm_test_case m) \<in> set (concat (map appended_messages test_cases))"
    using assms by (rule evaluated_message_appended)
  then have "concat (map appended_messages test_cases) \<noteq> []"
    by (metis empty_iff list.set(1))
  then have "0 < length (concat (map appended_messages test_cases))" by blast
  with mem show ?thesis
    by (simp only: fst_execute_test_cases fst_a_execute_test_cases length_append) simp
qed

theorem test_cases_grow_in_place_witness:
  "fst (execute_test_cases example_world [Conversational (example_conversation [0, 1])] [0]
          False False False None example_state)
     = [Conversational (example_conversation [0, 1]), LLM 0, LLM 1]
   \<and> fst (a_execute_test_cases example_world [Conversational (example_conversation [0, 1])] [0]
          False False False None example_state)
     = [Conversational (example_conversation [0, 1]), LLM 0, LLM 1]
   \<and> length [Conversational (example_conversation [0, 1])]
       < length (fst (execute_test_cases example_world
           [Conversational (example_conversation [0, 1])] [0] False False False None example_state))"
  using test_cases_grow_in_place [of "example_conversation [0, 1]"
      "[Conversational (example_conversation [0, 1])]"
      "\<lparr> should_evaluate = True, llm_test_case = 0 \<rparr>"
      example_world "[0]" False False False None example_state]
  by (simp add: example_conversation_def evaluated_messages_def)

section \<open>The run duration of a single-turn unit\<close>

text \<open>
  Claim C2. One single-turn test case, one single-turn metric, the cache not used, and
  half a second between the two readings of the clock: the metric is measured, not read
  from the cache. The concurrent strategy records the run duration 0, the sequential
  strategy the measured half second.
\<close>

theorem concurrent_duration_zero_without_cache:
  "map (run_duration_of \<circ> fst)
     (recorded (a_execute_test_cases example_world [LLM 0] [0] False False False None example_state))
     = [Some 0]
   \<and> map (run_duration_of \<circ> fst)
     (recorded (execute_test_cases example_world [LLM 0] [0] False False False None example_state))
     = [Some (1 / 2)]
   \<and> perf_counter example_world 1 - perf_counter example_world 0 = 1 / 2"
  by (simp add: exec_defs)

section \<open>The unit that \<open>assert_test\<close> checks\<close>

text \<open>
  Claim C3. A conversation of two should-evaluate messages, where the metric succeeds on
  the first message and fails on the second: the records handed to the test run are the
  conversation's, the first message's (successful) and the last message's (not
  successful). \<open>assert_test\<close> returns without raising in both strategies: the result it
  checks is the one of the first message.
\<close>

theorem assert_test_takes_first_message:
  "assert_test example_world (Conversational (example_conversation [0, 1])) [0] False example_state
     = Inr ()
   \<and> assert_test example_world (Conversational (example_conversation [0, 1])) [0] True example_state
     = Inr ()
   \<and> map (success_of \<circ> fst)
       (recorded (execute_test_cases example_world
          [Conversational (example_conversation [0, 1])] [0] False False False None example_state))
     = [Some True, Some True, Some False]"
  by (simp add: exec_defs)

section \<open>What the loops leave unchanged\<close>

definition unchanged_but_metrics :: "state \<Rightarrow> state \<Rightarrow> bool" where
  "unchanged_but_metrics s s' \<longleftrightarrow>
     test_case_objs s' = test_case_objs s
   \<and> llm_test_case_lookup_map s' = llm_test_case_lookup_map s
   \<and> next_object_id s' = next_object_id s
   \<and> perf_counter_calls s' = perf_counter_calls s
   \<and> disable_write_cache s' = disable_write_cache s
   \<and> durable_cache s' = durable_cache s
   \<and> transient_cache s' = transient_cache s
   \<and> trm_save_to_disk s' = trm_save_to_disk s
   \<and> trm_hyperparameters s' = trm_hyperparameters s
   \<and> trm_test_run s' = trm_test_run s"

lemma ubm_refl [simp]: "unchanged_but_metrics s s"
  by (simp add: unchanged_but_metrics_def)

lemma ubm_trans: "unchanged_but_metrics s s1 \<Longrightarrow> unchanged_but_metrics s1 s2 \<Longrightarrow> unchanged_but_metrics s s2"
  by (simp add: unchanged_but_metrics_def)

lemma ubm_update_metric [simp]: "unchanged_but_metrics s (update_metric a f s)"
  by (simp add: unchanged_but_metrics_def update_metric_def)

lemma metric_objs_update_metric [simp]:
  "metric_objs (update_metric a f s) b = (if b = a then f (metric_objs s a) else metric_objs s b)"
  by (simp add: update_metric_def)

lemma ubm_fold_update_metric:
  "unchanged_but_metrics s (fold (\<lambda>a. update_metric a (f a)) ms s)"
proof (induction ms arbitrary: s)
  case Nil
  show ?case by simp
next
  case (Cons a ms)
  show ?case
    using ubm_trans [OF ubm_update_metric Cons.IH] by simp
qed

lemma ubm_reset_errors [simp]: "unchanged_but_metrics s (reset_errors ms s)"
  unfolding reset_errors_def by (rule ubm_fold_update_metric)

lemma ubm_set_verbose_mode [simp]: "unchanged_but_metrics s (set_verbose_mode v ms s)"
  unfolding set_verbose_mode_def by (cases v) (simp_all add: ubm_fold_update_metric)

lemma measure_metric_cases:
  "measure_metric w ie a tc s =
     (case snd (metric_measure w ((metric_objs s a)\<lparr> m_async_mode := False \<rparr>) tc (test_case_objs s)) of
        None \<Rightarrow> Inr (update_metric a (\<lambda>m. fst (metric_measure w ((metric_objs s a)\<lparr> m_async_mode := False \<rparr>) tc (test_case_objs s))) s)
      | Some msg \<Rightarrow>
          (if ie then
             Inr (update_metric a (\<lambda>m. (fst (metric_measure w ((metric_objs s a)\<lparr> m_async_mode := False \<rparr>) tc (test_case_objs s)))
                     \<lparr> m_error := Some msg, m_success := False \<rparr>) s)
           else Inl (MetricException msg)))"
  by (simp add: measure_metric_def update_metric_def Let_def split: prod.splits option.splits)

lemma ubm_measure_metric:
  "measure_metric w ie a tc s = Inr s' \<Longrightarrow> unchanged_but_metrics s s'"
  by (auto simp: measure_metric_cases split: option.splits if_splits)

lemma measure_metric_other:
  "measure_metric w ie a tc s = Inr s' \<Longrightarrow> b \<noteq> a \<Longrightarrow> metric_objs s' b = metric_objs s b"
  by (auto simp: measure_metric_cases split: option.splits if_splits)

lemma measure_metric_total:
  "\<exists>s'. measure_metric w True a tc s = Inr s'"
  by (auto simp: measure_metric_cases split: option.splits)

lemma measure_metric_exn:
  "measure_metric w ie a tc s = Inl e \<Longrightarrow> \<not> ie \<and> (\<exists>msg. e = MetricException msg)"
  by (auto simp: measure_metric_cases split: option.splits if_splits)


lemma ubm_trm: "unchanged_but_metrics s s' \<Longrightarrow> trm_test_run s' = trm_test_run s"
  by (simp add: unchanged_but_metrics_def)

subsection \<open>The metric loops\<close>

lemma llm_metric_step_Inr:
  assumes "llm_metric_step w ie tc cached a (api, nc, ra, s) = Inr (api', nc', ra', s')"
  shows "unchanged_but_metrics s s'"
    and "\<And>b. b \<noteq> a \<Longrightarrow> metric_objs s' b = metric_objs s b"
    and "\<exists>md. api' = update_metric_data md api
            \<and> nc' = (if m_error (metric_objs s' a) = None
                       then append_cached (cache_metric_data (metric_objs s' a) md) nc else nc)"
  using assms
  by (auto simp: llm_metric_step_def Let_def split: option.splits sum.splits
        dest: ubm_measure_metric measure_metric_other)

lemma llm_metric_step_exn:
  "llm_metric_step w ie tc cached a acc = Inl e \<Longrightarrow> \<not> ie \<and> (\<exists>msg. e = MetricException msg)"
  by (cases acc)
     (auto simp: llm_metric_step_def Let_def split: option.splits sum.splits
        dest: measure_metric_exn)

lemma llm_metric_loop_Inr:
  assumes "llm_metric_loop w ie tc cached ms (api, nc, ra, s) = Inr (api', nc', ra', s')"
  shows "unchanged_but_metrics s s' \<and> (\<forall>b. b \<notin> set ms \<longrightarrow> metric_objs s' b = metric_objs s b)"
  using assms
proof (induction ms arbitrary: api nc ra s)
  case Nil
  then show ?case by simp
next
  case (Cons a ms)
  from Cons.prems obtain api1 nc1 ra1 s1 where
    step: "llm_metric_step w ie tc cached a (api, nc, ra, s) = Inr (api1, nc1, ra1, s1)"
    and rest: "llm_metric_loop w ie tc cached ms (api1, nc1, ra1, s1) = Inr (api', nc', ra', s')"
    by (auto split: sum.splits)
  from Cons.IH [OF rest] llm_metric_step_Inr(1,2) [OF step]
  show ?case by (auto intro: ubm_trans)
qed

lemma llm_metric_loop_exn:
  "llm_metric_loop w ie tc cached ms acc = Inl e \<Longrightarrow> \<not> ie \<and> (\<exists>msg. e = MetricException msg)"
proof (induction ms arbitrary: acc)
  case Nil
  then show ?case by simp
next
  case (Cons a ms)
  then show ?case
    by (auto split: sum.splits dest: llm_metric_step_exn)
qed

lemma conversational_metric_step_Inr:
  assumes "conversational_metric_step w ie c a (api, s) = Inr (api', s')"
  shows "unchanged_but_metrics s s'"
    and "\<And>b. b \<noteq> a \<Longrightarrow> metric_objs s' b = metric_objs s b"
  using assms
  by (auto simp: conversational_metric_step_def split: if_splits sum.splits
        dest: ubm_measure_metric measure_metric_other)

lemma conversational_metric_step_exn:
  "conversational_metric_step w ie c a acc = Inl e \<Longrightarrow> \<not> ie \<and> (\<exists>msg. e = MetricException msg)"
  by (cases acc)
     (auto simp: conversational_metric_step_def split: if_splits sum.splits
        dest: measure_metric_exn)

lemma conversational_metric_loop_Inr:
  assumes "conversational_metric_loop w ie c ms (api, s) = Inr (api', s')"
  shows "unchanged_but_metrics s s'"
  using assms
proof (induction ms arbitrary: api s)
  case Nil
  then show ?case by simp
next
  case (Cons a ms)
  from Cons.prems obtain api1 s1 where
    step: "conversational_metric_step w ie c a (api, s) = Inr (api1, s1)"
    and rest: "conversational_metric_loop w ie c ms (api1, s1) = Inr (api', s')"
    by (auto split: sum.splits)
  from Cons.IH [OF rest] conversational_metric_step_Inr(1) [OF step]
  show ?case by (auto intro: ubm_trans)
qed

lemma conversational_metric_loop_exn:
  "conversational_metric_loop w ie c ms acc = Inl e \<Longrightarrow> \<not> ie \<and> (\<exists>msg. e = MetricException msg)"
proof (induction ms arbitrary: acc)
  case Nil
  then show ?case by simp
next
  case (Cons a ms)
  then show ?case
    by (auto split: sum.splits dest: conversational_metric_step_exn)
qed

lemma run_metric_Inr:
  "run_metric w tc cached ie a s = Inr s' \<Longrightarrow> unchanged_but_metrics s s'"
  by (auto simp: run_metric_def split: option.splits
        dest!: ubm_measure_metric intro: ubm_trans [OF ubm_update_metric])

lemma run_metric_exn:
  "run_metric w tc cached ie a s = Inl e \<Longrightarrow> \<not> ie \<and> (\<exists>msg. e = MetricException msg)"
  by (auto simp: run_metric_def split: option.splits dest: measure_metric_exn)

lemma measure_metrics_with_indicator_Inr:
  "measure_metrics_with_indicator w ms tc cached ie s = Inr s' \<Longrightarrow> unchanged_but_metrics s s'"
proof (induction ms arbitrary: s)
  case Nil
  then show ?case by simp
next
  case (Cons a ms)
  then show ?case
    by (auto split: sum.splits dest!: run_metric_Inr intro: ubm_trans)
qed

lemma measure_metrics_with_indicator_exn:
  "measure_metrics_with_indicator w ms tc cached ie s = Inl e
     \<Longrightarrow> \<not> ie \<and> (\<exists>msg. e = MetricException msg)"
proof (induction ms arbitrary: s)
  case Nil
  then show ?case by simp
next
  case (Cons a ms)
  then show ?case
    by (auto split: sum.splits dest: run_metric_exn)
qed


subsection \<open>The units\<close>

lemma create_api_test_case_llm_plain:
  "snd (create_api_test_case_llm w a i None None None s) = s"
  by (simp add: create_api_test_case_llm_def truthy_id_def Let_def split: option.splits)

lemma begin_llm_test_case_eq:
  "begin_llm_test_case w uc tc n s =
     ((if uc then get_cached_test_case (test_case_objs s tc) (trm_hyperparameters s) s else None),
      llm_test_case_lookup_map s tc \<noteq> None,
      fst (create_api_test_case_llm w tc n None None None s),
      perf_counter w (perf_counter_calls s),
      s\<lparr> perf_counter_calls := Suc (perf_counter_calls s) \<rparr>)"
proof -
  obtain r s1 where c: "create_api_test_case_llm w tc n None None None s = (r, s1)"
    by (cases "create_api_test_case_llm w tc n None None None s") auto
  with create_api_test_case_llm_plain [of w tc n s] have "s1 = s" by simp
  with c show ?thesis
    by (simp add: begin_llm_test_case_def read_perf_counter_def Let_def)
qed

lemma execute_llm_test_case_InrE:
  assumes "execute_llm_test_case w ie uc ms tc (l, c, rs, s) = Inr (l', c', rs', s')"
    and "ms \<noteq> []"
  obtains api1 nc ra s3 where
    "llm_metric_loop w ie tc
        (if uc then get_cached_test_case (test_case_objs s tc) (trm_hyperparameters s) s else None)
        ms
        (fst (create_api_test_case_llm w tc (l + 1) None None None s),
         \<lparr> cached_metrics_data = [] \<rparr>, True,
         s\<lparr> perf_counter_calls := Suc (perf_counter_calls s) \<rparr>)
      = Inr (api1, nc, ra, s3)"
    and "l' = l + 1" and "c' = c"
    and "(rs', s') =
       finish_llm_test_case tc (llm_test_case_lookup_map s tc \<noteq> None)
         (update_run_duration
            (if ra then 0
             else perf_counter w (perf_counter_calls s3) - perf_counter w (perf_counter_calls s))
            api1)
         nc rs (s3\<lparr> perf_counter_calls := Suc (perf_counter_calls s3) \<rparr>)"
  using assms
  by (auto simp: execute_llm_test_case_def begin_llm_test_case_eq read_perf_counter_def Let_def
        split: sum.splits prod.splits)

lemma finish_llm_test_case_eq:
  "finish_llm_test_case tc inmap r nc rs s = (rs', s') \<Longrightarrow>
     rs' = rs @ [(test_result_of r, if inmap then Some tc else None)]
   \<and> trm_test_run s' = trm_test_run s @ [(LLMApi r, LLM tc)]
   \<and> metric_objs s' = metric_objs s
   \<and> test_case_objs s' = test_case_objs s
   \<and> next_object_id s' = next_object_id s
   \<and> perf_counter_calls s' = perf_counter_calls s
   \<and> disable_write_cache s' = disable_write_cache s
   \<and> trm_hyperparameters s' = trm_hyperparameters s
   \<and> llm_test_case_lookup_map s' =
       (if inmap then (llm_test_case_lookup_map s)(tc \<mapsto> r) else llm_test_case_lookup_map s)
   \<and> transient_cache s' =
       (transient_cache s)(cache_key_of (test_case_objs s tc) (trm_hyperparameters s) \<mapsto> nc)
   \<and> durable_cache s' =
       (if disable_write_cache s then durable_cache s
        else (durable_cache s)(cache_key_of (test_case_objs s tc) (trm_hyperparameters s) \<mapsto> nc))"
  by (auto simp: finish_llm_test_case_def update_test_run_def cache_test_case_def Let_def)


lemma execute_llm_test_case_summary:
  assumes "execute_llm_test_case w ie uc ms tc (l, c, rs, s) = Inr (l', c', rs', s')"
    and "ms \<noteq> []"
  shows "\<exists>r alias. rs' = rs @ [(test_result_of r, alias)]
           \<and> trm_test_run s' = trm_test_run s @ [(LLMApi r, LLM tc)]"
    and "test_case_objs s' = test_case_objs s"
    and "disable_write_cache s' = disable_write_cache s"
    and "trm_hyperparameters s' = trm_hyperparameters s"
    and "l' = l + 1" and "c' = c"
proof -
  from assms obtain api1 nc ra s3 where
    loop: "llm_metric_loop w ie tc
        (if uc then get_cached_test_case (test_case_objs s tc) (trm_hyperparameters s) s else None)
        ms
        (fst (create_api_test_case_llm w tc (l + 1) None None None s),
         \<lparr> cached_metrics_data = [] \<rparr>, True,
         s\<lparr> perf_counter_calls := Suc (perf_counter_calls s) \<rparr>)
      = Inr (api1, nc, ra, s3)"
    and lc: "l' = l + 1" "c' = c"
    and fin: "(rs', s') =
       finish_llm_test_case tc (llm_test_case_lookup_map s tc \<noteq> None)
         (update_run_duration
            (if ra then 0
             else perf_counter w (perf_counter_calls s3) - perf_counter w (perf_counter_calls s))
            api1)
         nc rs (s3\<lparr> perf_counter_calls := Suc (perf_counter_calls s3) \<rparr>)"
    by (rule execute_llm_test_case_InrE)
  from llm_metric_loop_Inr [OF loop]
  have u: "unchanged_but_metrics (s\<lparr> perf_counter_calls := Suc (perf_counter_calls s) \<rparr>) s3"
    by simp
  note f = finish_llm_test_case_eq [OF fin [symmetric]]
  from f u show "\<exists>r alias. rs' = rs @ [(test_result_of r, alias)]
           \<and> trm_test_run s' = trm_test_run s @ [(LLMApi r, LLM tc)]"
    by (auto simp: unchanged_but_metrics_def)
  from f u show "test_case_objs s' = test_case_objs s"
    by (simp add: unchanged_but_metrics_def)
  from f u show "disable_write_cache s' = disable_write_cache s"
    by (simp add: unchanged_but_metrics_def)
  from f u show "trm_hyperparameters s' = trm_hyperparameters s"
    by (simp add: unchanged_but_metrics_def)
  from lc show "l' = l + 1" "c' = c" by simp_all
qed

lemma execute_llm_test_case_exn:
  "execute_llm_test_case w ie uc ms tc acc = Inl e \<Longrightarrow> \<not> ie \<and> (\<exists>msg. e = MetricException msg)"
  by (cases acc)
     (auto simp: execute_llm_test_case_def Let_def split: if_splits prod.splits sum.splits
        dest: llm_metric_loop_exn)

subsection \<open>The concurrent single-turn unit\<close>

lemma a_execute_llm_test_case_InrE:
  assumes "a_execute_llm_test_case w metrics ie uc ms tc (l, c, rs, s) = Inr (l', c', rs', s')"
    and "ms \<noteq> []"
  obtains s0 s3 api1 nc where
    "s0 = reset_errors metrics s"
    and "measure_metrics_with_indicator w ms (LLM tc)
        (if uc then get_cached_test_case (test_case_objs s0 tc) (trm_hyperparameters s0) s0
         else None)
        ie (s0\<lparr> perf_counter_calls := Suc (perf_counter_calls s0) \<rparr>) = Inr s3"
    and "a_collect_llm_metrics s3 ms
           (fst (create_api_test_case_llm w tc (l + 1) None None None s0),
            \<lparr> cached_metrics_data = [] \<rparr>) = (api1, nc)"
    and "l' = l + 1" and "c' = c"
    and "(rs', s') =
       finish_llm_test_case tc (llm_test_case_lookup_map s0 tc \<noteq> None)
         (update_run_duration
            (if perf_counter w (perf_counter_calls s3) - perf_counter w (perf_counter_calls s0) < 1
             then 0
             else perf_counter w (perf_counter_calls s3) - perf_counter w (perf_counter_calls s0))
            api1)
         nc rs (s3\<lparr> perf_counter_calls := Suc (perf_counter_calls s3) \<rparr>)"
proof -
  define s0 where "s0 = reset_errors metrics s"
  define cached where "cached =
    (if uc then get_cached_test_case (test_case_objs s0 tc) (trm_hyperparameters s0) s0 else None)"
  define r0 where "r0 = fst (create_api_test_case_llm w tc (l + 1) None None None s0)"
  have b: "begin_llm_test_case w uc tc (l + 1) (reset_errors metrics s) =
      (cached, llm_test_case_lookup_map s0 tc \<noteq> None, r0,
       perf_counter w (perf_counter_calls s0),
       s0\<lparr> perf_counter_calls := Suc (perf_counter_calls s0) \<rparr>)"
    by (simp add: begin_llm_test_case_eq s0_def cached_def r0_def)
  from assms b obtain s3 where run:
    "measure_metrics_with_indicator w ms (LLM tc) cached ie
       (s0\<lparr> perf_counter_calls := Suc (perf_counter_calls s0) \<rparr>) = Inr s3"
    by (cases "measure_metrics_with_indicator w ms (LLM tc) cached ie
       (s0\<lparr> perf_counter_calls := Suc (perf_counter_calls s0) \<rparr>)")
       (simp_all add: a_execute_llm_test_case_def)
  obtain api1 nc where col:
    "a_collect_llm_metrics s3 ms (r0, \<lparr> cached_metrics_data = [] \<rparr>) = (api1, nc)"
    by (cases "a_collect_llm_metrics s3 ms (r0, \<lparr> cached_metrics_data = [] \<rparr>)") auto
  define d where "d =
    (if perf_counter w (perf_counter_calls s3) - perf_counter w (perf_counter_calls s0) < 1
     then 0
     else perf_counter w (perf_counter_calls s3) - perf_counter w (perf_counter_calls s0))"
  obtain rs2 s5 where fin:
    "finish_llm_test_case tc (llm_test_case_lookup_map s0 tc \<noteq> None)
       (update_run_duration d api1) nc rs
       (s3\<lparr> perf_counter_calls := Suc (perf_counter_calls s3) \<rparr>) = (rs2, s5)"
    by (cases "finish_llm_test_case tc (llm_test_case_lookup_map s0 tc \<noteq> None)
       (update_run_duration d api1) nc rs
       (s3\<lparr> perf_counter_calls := Suc (perf_counter_calls s3) \<rparr>)") auto
  from assms b run col fin
  have "l' = l + 1 \<and> c' = c \<and> rs' = rs2 \<and> s' = s5"
    by (simp add: a_execute_llm_test_case_def read_perf_counter_def Let_def d_def
          split del: if_split cong: if_cong)
  with fin have "l' = l + 1" "c' = c"
    "(rs', s') = finish_llm_test_case tc (llm_test_case_lookup_map s0 tc \<noteq> None)
       (update_run_duration d api1) nc rs
       (s3\<lparr> perf_counter_calls := Suc (perf_counter_calls s3) \<rparr>)"
    by simp_all
  with that [of s0 s3 api1 nc] run col show thesis
    unfolding s0_def [symmetric] cached_def r0_def d_def by blast
qed

lemma a_execute_llm_test_case_summary:
  assumes "a_execute_llm_test_case w metrics ie uc ms tc (l, c, rs, s) = Inr (l', c', rs', s')"
    and "ms \<noteq> []"
  shows "\<exists>r alias. rs' = rs @ [(test_result_of r, alias)]
           \<and> trm_test_run s' = trm_test_run s @ [(LLMApi r, LLM tc)]"
    and "test_case_objs s' = test_case_objs s"
    and "disable_write_cache s' = disable_write_cache s"
    and "trm_hyperparameters s' = trm_hyperparameters s"
    and "l' = l + 1" and "c' = c"
proof -
  from assms obtain s0 s3 api1 nc where
    s0: "s0 = reset_errors metrics s"
    and run: "measure_metrics_with_indicator w ms (LLM tc)
        (if uc then get_cached_test_case (test_case_objs s0 tc) (trm_hyperparameters s0) s0
         else None)
        ie (s0\<lparr> perf_counter_calls := Suc (perf_counter_calls s0) \<rparr>) = Inr s3"
    and lc: "l' = l + 1" "c' = c"
    and fin: "(rs', s') =
       finish_llm_test_case tc (llm_test_case_lookup_map s0 tc \<noteq> None)
         (update_run_duration
            (if perf_counter w (perf_counter_calls s3) - perf_counter w (perf_counter_calls s0) < 1
             then 0
             else perf_counter w (perf_counter_calls s3) - perf_counter w (perf_counter_calls s0))
            api1)
         nc rs (s3\<lparr> perf_counter_calls := Suc (perf_counter_calls s3) \<rparr>)"
    by (rule a_execute_llm_test_case_InrE)
  have u0: "unchanged_but_metrics s s0" by (simp add: s0)
  from measure_metrics_with_indicator_Inr [OF run]
  have u: "unchanged_but_metrics (s0\<lparr> perf_counter_calls := Suc (perf_counter_calls s0) \<rparr>) s3" .
  note f = finish_llm_test_case_eq [OF fin [symmetric]]
  from f u u0 show "\<exists>r alias. rs' = rs @ [(test_result_of r, alias)]
           \<and> trm_test_run s' = trm_test_run s @ [(LLMApi r, LLM tc)]"
    by (auto simp: unchanged_but_metrics_def)
  from f u u0 show "test_case_objs s' = test_case_objs s"
    by (simp add: unchanged_but_metrics_def)
  from f u u0 show "disable_write_cache s' = disable_write_cache s"
    by (simp add: unchanged_but_metrics_def)
  from f u u0 show "trm_hyperparameters s' = trm_hyperparameters s"
    by (simp add: unchanged_but_metrics_def)
  from lc show "l' = l + 1" "c' = c" by simp_all
qed

lemma a_execute_llm_test_case_exn:
  "a_execute_llm_test_case w metrics ie uc ms tc acc = Inl e
     \<Longrightarrow> \<not> ie \<and> (\<exists>msg. e = MetricException msg)"
  by (cases acc)
     (auto simp: a_execute_llm_test_case_def Let_def split: if_splits prod.splits sum.splits
        dest: measure_metrics_with_indicator_exn)


subsection \<open>The conversational unit\<close>

definition unchanged_but_test_cases :: "state \<Rightarrow> state \<Rightarrow> bool" where
  "unchanged_but_test_cases s s' \<longleftrightarrow>
     metric_objs s' = metric_objs s
   \<and> perf_counter_calls s' = perf_counter_calls s
   \<and> disable_write_cache s' = disable_write_cache s
   \<and> durable_cache s' = durable_cache s
   \<and> transient_cache s' = transient_cache s
   \<and> trm_save_to_disk s' = trm_save_to_disk s
   \<and> trm_hyperparameters s' = trm_hyperparameters s
   \<and> trm_test_run s' = trm_test_run s"

lemma ubt_refl [simp]: "unchanged_but_test_cases s s"
  by (simp add: unchanged_but_test_cases_def)

lemma ubt_trans:
  "unchanged_but_test_cases s s1 \<Longrightarrow> unchanged_but_test_cases s1 s2
     \<Longrightarrow> unchanged_but_test_cases s s2"
  by (simp add: unchanged_but_test_cases_def)

lemma ubt_create_api_test_case_llm:
  "create_api_test_case_llm w a i cid md cm s = (r, s') \<Longrightarrow> unchanged_but_test_cases s s'"
  by (auto simp: create_api_test_case_llm_def unchanged_but_test_cases_def Let_def
        split: option.splits if_splits)

lemma ubt_create_message_records:
  "create_message_records w i ms cid md cm s = (rs, s')
     \<Longrightarrow> unchanged_but_test_cases s s' \<and> length rs = length ms"
proof (induction ms arbitrary: i s rs s')
  case Nil
  then show ?case by simp
next
  case (Cons m ms)
  obtain r s1 where one:
    "create_api_test_case_llm w (llm_test_case m) (int i) (Some cid) md cm s = (r, s1)"
    by (cases "create_api_test_case_llm w (llm_test_case m) (int i) (Some cid) md cm s") auto
  obtain rs1 s2 where rest: "create_message_records w (Suc i) ms cid md cm s1 = (rs1, s2)"
    by (cases "create_message_records w (Suc i) ms cid md cm s1") auto
  from Cons.prems one rest have "rs = r # rs1" "s' = s2" by simp_all
  with Cons.IH [OF rest] ubt_create_api_test_case_llm [OF one]
  show ?case by (auto intro: ubt_trans)
qed

lemma create_api_test_case_conversational_frame:
  assumes "create_api_test_case_conversational w c i s = (r, s')"
  shows "unchanged_but_test_cases s s'"
    and "capi_metrics_data r = None"
    and "length (capi_messages r) = length (messages c)"
proof -
  obtain msgs s1 where m:
    "create_message_records w 0 (messages c) (Suc (next_object_id s))
       (conv_additional_metadata c) (conv_comments c)
       (s\<lparr> next_object_id := Suc (next_object_id s) \<rparr>) = (msgs, s1)"
    by (cases "create_message_records w 0 (messages c) (Suc (next_object_id s))
       (conv_additional_metadata c) (conv_comments c)
       (s\<lparr> next_object_id := Suc (next_object_id s) \<rparr>)") auto
  from assms m have r: "capi_metrics_data r = None" "capi_messages r = msgs" "s' = s1"
    by (auto simp: create_api_test_case_conversational_def Let_def)
  from ubt_create_message_records [OF m] r
  show "unchanged_but_test_cases s s'" "capi_metrics_data r = None"
    "length (capi_messages r) = length (messages c)"
    by (simp_all add: unchanged_but_test_cases_def)
qed

lemma execute_conversational_test_case_InrE:
  assumes "execute_conversational_test_case w ie ms c (l, cc, rs, s) = Inr (l', cc', rs', s')"
  obtains r0 s1 api1 s3 where
    "create_api_test_case_conversational w c (cc + 1) s = (r0, s1)"
    and "conversational_metric_loop w ie c ms
           (r0, s1\<lparr> perf_counter_calls := Suc (perf_counter_calls s1) \<rparr>) = Inr (api1, s3)"
    and "l' = l" and "cc' = cc + 1" and "rs' = rs"
    and "s' = update_test_run
           (ConversationalApi
              (if length ms > 0 then
                 update_run_duration_conversational
                   (perf_counter w (perf_counter_calls s3) - perf_counter w (perf_counter_calls s1))
                   api1
               else api1))
           (Conversational c) (s3\<lparr> perf_counter_calls := Suc (perf_counter_calls s3) \<rparr>)"
proof -
  obtain r0 s1 where cr: "create_api_test_case_conversational w c (cc + 1) s = (r0, s1)"
    by (cases "create_api_test_case_conversational w c (cc + 1) s") auto
  from assms cr obtain api1 s3 where loop:
    "conversational_metric_loop w ie c ms
       (r0, s1\<lparr> perf_counter_calls := Suc (perf_counter_calls s1) \<rparr>) = Inr (api1, s3)"
    by (cases "conversational_metric_loop w ie c ms
       (r0, s1\<lparr> perf_counter_calls := Suc (perf_counter_calls s1) \<rparr>)")
       (auto simp: execute_conversational_test_case_def read_perf_counter_def Let_def)
  from assms cr loop have "l' = l" "cc' = cc + 1" "rs' = rs"
    "s' = update_test_run
           (ConversationalApi
              (if length ms > 0 then
                 update_run_duration_conversational
                   (perf_counter w (perf_counter_calls s3) - perf_counter w (perf_counter_calls s1))
                   api1
               else api1))
           (Conversational c) (s3\<lparr> perf_counter_calls := Suc (perf_counter_calls s3) \<rparr>)"
    by (simp_all add: execute_conversational_test_case_def read_perf_counter_def Let_def
          split del: if_split cong: if_cong)
  with that cr loop show thesis by blast
qed

lemma conversational_metric_loop_Nil_metrics:
  "conversational_metric_loop w ie c [] acc = Inr acc"
  by simp

lemma execute_conversational_test_case_summary:
  assumes "execute_conversational_test_case w ie ms c (l, cc, rs, s) = Inr (l', cc', rs', s')"
  shows "\<exists>r. trm_test_run s' = trm_test_run s @ [(ConversationalApi r, Conversational c)]
           \<and> (ms = [] \<longrightarrow> capi_metrics_data r = None)"
    and "rs' = rs" and "l' = l" and "cc' = cc + 1"
    and "disable_write_cache s' = disable_write_cache s"
    and "trm_hyperparameters s' = trm_hyperparameters s"
proof -
  from assms obtain r0 s1 api1 s3 where
    cr: "create_api_test_case_conversational w c (cc + 1) s = (r0, s1)"
    and loop: "conversational_metric_loop w ie c ms
           (r0, s1\<lparr> perf_counter_calls := Suc (perf_counter_calls s1) \<rparr>) = Inr (api1, s3)"
    and lc: "l' = l" "cc' = cc + 1" "rs' = rs"
    and s': "s' = update_test_run
           (ConversationalApi
              (if length ms > 0 then
                 update_run_duration_conversational
                   (perf_counter w (perf_counter_calls s3) - perf_counter w (perf_counter_calls s1))
                   api1
               else api1))
           (Conversational c) (s3\<lparr> perf_counter_calls := Suc (perf_counter_calls s3) \<rparr>)"
    by (rule execute_conversational_test_case_InrE)
  note fr = create_api_test_case_conversational_frame [OF cr]
  from conversational_metric_loop_Inr [OF loop]
  have u: "unchanged_but_metrics (s1\<lparr> perf_counter_calls := Suc (perf_counter_calls s1) \<rparr>) s3" .
  have "ms = [] \<Longrightarrow> api1 = r0" using loop by simp
  with fr u s' show "\<exists>r. trm_test_run s' = trm_test_run s @ [(ConversationalApi r, Conversational c)]
           \<and> (ms = [] \<longrightarrow> capi_metrics_data r = None)"
    by (auto simp: update_test_run_def unchanged_but_metrics_def unchanged_but_test_cases_def)
  from fr u s' show "disable_write_cache s' = disable_write_cache s"
    by (simp add: update_test_run_def unchanged_but_metrics_def unchanged_but_test_cases_def)
  from fr u s' show "trm_hyperparameters s' = trm_hyperparameters s"
    by (simp add: update_test_run_def unchanged_but_metrics_def unchanged_but_test_cases_def)
  from lc show "rs' = rs" "l' = l" "cc' = cc + 1" by simp_all
qed

lemma execute_conversational_test_case_exn:
  "execute_conversational_test_case w ie ms c acc = Inl e
     \<Longrightarrow> \<not> ie \<and> (\<exists>msg. e = MetricException msg)"
  by (cases acc)
     (auto simp: execute_conversational_test_case_def Let_def split: prod.splits sum.splits
        dest: conversational_metric_loop_exn)


lemma a_execute_conversational_test_case_InrE:
  assumes "a_execute_conversational_test_case w ie ms c (l, cc, rs, s) = Inr (l', cc', rs', s')"
  obtains r0 s1 s3 where
    "create_api_test_case_conversational w c (cc + 1) s = (r0, s1)"
    and "measure_metrics_with_indicator w ms (Conversational c) None ie
           (s1\<lparr> perf_counter_calls := Suc (perf_counter_calls s1) \<rparr>) = Inr s3"
    and "l' = l" and "cc' = cc + 1" and "rs' = rs"
    and "s' = update_test_run
           (ConversationalApi
              (if length ms > 0 then
                 update_run_duration_conversational
                   (perf_counter w (perf_counter_calls s3) - perf_counter w (perf_counter_calls s1))
                   (a_collect_conversational_metrics s3 ms r0)
               else a_collect_conversational_metrics s3 ms r0))
           (Conversational c) (s3\<lparr> perf_counter_calls := Suc (perf_counter_calls s3) \<rparr>)"
proof -
  obtain r0 s1 where cr: "create_api_test_case_conversational w c (cc + 1) s = (r0, s1)"
    by (cases "create_api_test_case_conversational w c (cc + 1) s") auto
  from assms cr obtain s3 where run:
    "measure_metrics_with_indicator w ms (Conversational c) None ie
       (s1\<lparr> perf_counter_calls := Suc (perf_counter_calls s1) \<rparr>) = Inr s3"
    by (cases "measure_metrics_with_indicator w ms (Conversational c) None ie
       (s1\<lparr> perf_counter_calls := Suc (perf_counter_calls s1) \<rparr>)")
       (auto simp: a_execute_conversational_test_case_def read_perf_counter_def Let_def)
  from assms cr run have "l' = l" "cc' = cc + 1" "rs' = rs"
    "s' = update_test_run
           (ConversationalApi
              (if length ms > 0 then
                 update_run_duration_conversational
                   (perf_counter w (perf_counter_calls s3) - perf_counter w (perf_counter_calls s1))
                   (a_collect_conversational_metrics s3 ms r0)
               else a_collect_conversational_metrics s3 ms r0))
           (Conversational c) (s3\<lparr> perf_counter_calls := Suc (perf_counter_calls s3) \<rparr>)"
    by (simp_all add: a_execute_conversational_test_case_def read_perf_counter_def Let_def
          split del: if_split cong: if_cong)
  with that cr run show thesis by blast
qed

lemma a_execute_conversational_test_case_summary:
  assumes "a_execute_conversational_test_case w ie ms c (l, cc, rs, s) = Inr (l', cc', rs', s')"
  shows "\<exists>r. trm_test_run s' = trm_test_run s @ [(ConversationalApi r, Conversational c)]
           \<and> (ms = [] \<longrightarrow> capi_metrics_data r = None)"
    and "rs' = rs" and "l' = l" and "cc' = cc + 1"
    and "disable_write_cache s' = disable_write_cache s"
    and "trm_hyperparameters s' = trm_hyperparameters s"
proof -
  from assms obtain r0 s1 s3 where
    cr: "create_api_test_case_conversational w c (cc + 1) s = (r0, s1)"
    and run: "measure_metrics_with_indicator w ms (Conversational c) None ie
           (s1\<lparr> perf_counter_calls := Suc (perf_counter_calls s1) \<rparr>) = Inr s3"
    and lc: "l' = l" "cc' = cc + 1" "rs' = rs"
    and s': "s' = update_test_run
           (ConversationalApi
              (if length ms > 0 then
                 update_run_duration_conversational
                   (perf_counter w (perf_counter_calls s3) - perf_counter w (perf_counter_calls s1))
                   (a_collect_conversational_metrics s3 ms r0)
               else a_collect_conversational_metrics s3 ms r0))
           (Conversational c) (s3\<lparr> perf_counter_calls := Suc (perf_counter_calls s3) \<rparr>)"
    by (rule a_execute_conversational_test_case_InrE)
  note fr = create_api_test_case_conversational_frame [OF cr]
  from measure_metrics_with_indicator_Inr [OF run]
  have u: "unchanged_but_metrics (s1\<lparr> perf_counter_calls := Suc (perf_counter_calls s1) \<rparr>) s3" .
  from fr u s' show "\<exists>r. trm_test_run s' = trm_test_run s @ [(ConversationalApi r, Conversational c)]
           \<and> (ms = [] \<longrightarrow> capi_metrics_data r = None)"
    by (auto simp: update_test_run_def unchanged_but_metrics_def unchanged_but_test_cases_def)
  from fr u s' show "disable_write_cache s' = disable_write_cache s"
    by (simp add: update_test_run_def unchanged_but_metrics_def unchanged_but_test_cases_def)
  from fr u s' show "trm_hyperparameters s' = trm_hyperparameters s"
    by (simp add: update_test_run_def unchanged_but_metrics_def unchanged_but_test_cases_def)
  from lc show "rs' = rs" "l' = l" "cc' = cc + 1" by simp_all
qed

lemma a_execute_conversational_test_case_exn:
  "a_execute_conversational_test_case w ie ms c acc = Inl e
     \<Longrightarrow> \<not> ie \<and> (\<exists>msg. e = MetricException msg)"
  by (cases acc)
     (auto simp: a_execute_conversational_test_case_def Let_def split: prod.splits sum.splits
        dest: measure_metrics_with_indicator_exn)

subsection \<open>The main loops\<close>

text \<open>The entry of the returned list that a record of the test run stands for.\<close>

definition results_of :: "api_test_case \<times> test_case \<Rightarrow> TestResult list" where
  "results_of x = (case fst x of LLMApi r \<Rightarrow> [test_result_of r] | ConversationalApi r \<Rightarrow> [])"

text \<open>What one unit adds to the returned list and to the test run.\<close>

definition unit_trace ::
  "world \<Rightarrow> addr list \<Rightarrow> test_case
     \<Rightarrow> test_result_entry list \<times> state \<Rightarrow> test_result_entry list \<times> state \<Rightarrow> bool" where
  "unit_trace w metrics tc before after \<longleftrightarrow>
     (case (before, after) of ((rs, s), (rs', s')) \<Rightarrow>
        disable_write_cache s' = disable_write_cache s
      \<and> trm_hyperparameters s' = trm_hyperparameters s
      \<and> (case tc of
            LLM a \<Rightarrow>
              (if llm_metrics_of w metrics = [] then rs' = rs \<and> trm_test_run s' = trm_test_run s
               else (\<exists>r alias. rs' = rs @ [(test_result_of r, alias)]
                        \<and> trm_test_run s' = trm_test_run s @ [(LLMApi r, LLM a)]))
          | Conversational c \<Rightarrow>
              rs' = rs
            \<and> (\<exists>r. trm_test_run s' = trm_test_run s @ [(ConversationalApi r, Conversational c)]
                   \<and> (conversational_metrics_of w metrics = [] \<longrightarrow> capi_metrics_data r = None))))"

lemma execute_test_case_trace:
  assumes "execute_test_case w metrics ie uc tc (l, c, rs, s) = Inr (l', c', rs', s')"
  shows "unit_trace w metrics tc (rs, s) (rs', s')"
proof (cases tc)
  case (LLM a)
  have u: "unchanged_but_metrics s (reset_errors metrics s)" by simp
  show ?thesis
  proof (cases "llm_metrics_of w metrics = []")
    case True
    with assms LLM u show ?thesis
      by (auto simp: execute_test_case_def execute_llm_test_case_def unit_trace_def
            unchanged_but_metrics_def)
  next
    case False
    from assms LLM have e: "execute_llm_test_case w ie uc (llm_metrics_of w metrics) a
        (l, c, rs, reset_errors metrics s) = Inr (l', c', rs', s')"
      by (simp add: execute_test_case_def)
    from execute_llm_test_case_summary(1,3,4) [OF e False] u LLM False show ?thesis
      by (auto simp: unit_trace_def unchanged_but_metrics_def)
  qed
next
  case (Conversational cv)
  have u: "unchanged_but_metrics s (reset_errors metrics s)" by simp
  from assms Conversational have e: "execute_conversational_test_case w ie
      (conversational_metrics_of w metrics) cv (l, c, rs, reset_errors metrics s)
        = Inr (l', c', rs', s')"
    by (simp add: execute_test_case_def)
  from execute_conversational_test_case_summary(1,2,5,6) [OF e] u Conversational show ?thesis
    by (auto simp: unit_trace_def unchanged_but_metrics_def)
qed

lemma a_execute_test_case_trace:
  assumes "a_execute_test_case w metrics ie uc tc (l, c, rs, s) = Inr (l', c', rs', s')"
  shows "unit_trace w metrics tc (rs, s) (rs', s')"
proof (cases tc)
  case (LLM a)
  show ?thesis
  proof (cases "llm_metrics_of w metrics = []")
    case True
    with assms LLM show ?thesis
      by (auto simp: a_execute_test_case_def a_execute_llm_test_case_def unit_trace_def)
  next
    case False
    from assms LLM have e: "a_execute_llm_test_case w metrics ie uc (llm_metrics_of w metrics) a
        (l, c, rs, s) = Inr (l', c', rs', s')"
      by (simp add: a_execute_test_case_def)
    from a_execute_llm_test_case_summary(1,3,4) [OF e False] LLM False show ?thesis
      by (auto simp: unit_trace_def)
  qed
next
  case (Conversational cv)
  from assms Conversational have e: "a_execute_conversational_test_case w ie
      (conversational_metrics_of w metrics) cv (l, c, rs, s) = Inr (l', c', rs', s')"
    by (simp add: a_execute_test_case_def)
  from a_execute_conversational_test_case_summary(1,2,5,6) [OF e] Conversational show ?thesis
    by (auto simp: unit_trace_def)
qed

lemma execute_test_case_exn:
  "execute_test_case w metrics ie uc tc acc = Inl e \<Longrightarrow> \<not> ie \<and> (\<exists>msg. e = MetricException msg)"
  by (cases acc; cases tc)
     (auto simp: execute_test_case_def
        dest: execute_llm_test_case_exn execute_conversational_test_case_exn)

lemma a_execute_test_case_exn:
  "a_execute_test_case w metrics ie uc tc acc = Inl e \<Longrightarrow> \<not> ie \<and> (\<exists>msg. e = MetricException msg)"
  by (cases tc)
     (auto simp: a_execute_test_case_def
        dest: a_execute_llm_test_case_exn a_execute_conversational_test_case_exn)


lemma execute_loop_exn:
  "execute_loop w metrics ie uc tcs acc = Inl e \<Longrightarrow> \<not> ie \<and> (\<exists>msg. e = MetricException msg)"
proof (induction tcs arbitrary: acc)
  case Nil
  then show ?case by simp
next
  case (Cons tc tcs)
  then show ?case
    by (auto split: sum.splits dest: execute_test_case_exn)
qed

lemma a_execute_loop_exn:
  "a_execute_loop w metrics ie uc tcs acc = Inl e \<Longrightarrow> \<not> ie \<and> (\<exists>msg. e = MetricException msg)"
proof (induction tcs arbitrary: acc)
  case Nil
  then show ?case by simp
next
  case (Cons tc tcs)
  then show ?case
    by (auto split: sum.splits dest: a_execute_test_case_exn)
qed

text \<open>The test cases for which a record goes to the test run, and those that give an
  entry of the returned list.\<close>

definition handed_over :: "world \<Rightarrow> addr list \<Rightarrow> test_case \<Rightarrow> bool" where
  "handed_over w metrics tc = (is_llm tc \<longrightarrow> llm_metrics_of w metrics \<noteq> [])"

definition gives_result :: "world \<Rightarrow> addr list \<Rightarrow> test_case \<Rightarrow> bool" where
  "gives_result w metrics tc = (is_llm tc \<and> llm_metrics_of w metrics \<noteq> [])"

definition batch_trace ::
  "world \<Rightarrow> addr list \<Rightarrow> test_case list
     \<Rightarrow> test_result_entry list \<times> state \<Rightarrow> test_result_entry list \<times> state \<Rightarrow> bool" where
  "batch_trace w metrics tcs before after \<longleftrightarrow>
     (case (before, after) of ((rs, s), (rs', s')) \<Rightarrow>
        disable_write_cache s' = disable_write_cache s
      \<and> trm_hyperparameters s' = trm_hyperparameters s
      \<and> length rs' = length rs + length (filter (gives_result w metrics) tcs)
      \<and> (\<exists>new. trm_test_run s' = trm_test_run s @ new
              \<and> map fst rs' = map fst rs @ concat (map results_of new)
              \<and> map snd new = filter (handed_over w metrics) tcs
              \<and> (\<forall>r tc. (r, tc) \<in> set new \<longrightarrow>
                    (case r of
                       LLMApi x \<Rightarrow> is_llm tc
                     | ConversationalApi x \<Rightarrow>
                         \<not> is_llm tc
                       \<and> (conversational_metrics_of w metrics = [] \<longrightarrow> capi_metrics_data x = None)))))"

lemma batch_trace_Nil: "batch_trace w metrics [] (rs, s) (rs, s)"
  by (simp add: batch_trace_def)

lemma batch_trace_Cons:
  assumes "unit_trace w metrics tc (rs, s) (rs1, s1)"
    and "batch_trace w metrics tcs (rs1, s1) (rs', s')"
  shows "batch_trace w metrics (tc # tcs) (rs, s) (rs', s')"
proof -
  from assms(2) obtain new where
    flags: "disable_write_cache s' = disable_write_cache s1"
      "trm_hyperparameters s' = trm_hyperparameters s1"
    and len: "length rs' = length rs1 + length (filter (gives_result w metrics) tcs)"
    and tk: "map fst rs' = map fst rs1 @ concat (map results_of new)"
    and run: "trm_test_run s' = trm_test_run s1 @ new"
    and snds: "map snd new = filter (handed_over w metrics) tcs"
    and kinds: "\<forall>r tc. (r, tc) \<in> set new \<longrightarrow>
                    (case r of
                       LLMApi x \<Rightarrow> is_llm tc
                     | ConversationalApi x \<Rightarrow>
                         \<not> is_llm tc
                       \<and> (conversational_metrics_of w metrics = [] \<longrightarrow> capi_metrics_data x = None))"
    by (auto simp: batch_trace_def)
  from assms(1) obtain one where
    flags1: "disable_write_cache s1 = disable_write_cache s"
      "trm_hyperparameters s1 = trm_hyperparameters s"
    and len1: "length rs1 = length rs + (if gives_result w metrics tc then 1 else 0)"
    and tk1: "map fst rs1 = map fst rs @ concat (map results_of one)"
    and run1: "trm_test_run s1 = trm_test_run s @ one"
    and snds1: "map snd one = (if handed_over w metrics tc then [tc] else [])"
    and kinds1: "\<forall>r t. (r, t) \<in> set one \<longrightarrow>
                    (case r of
                       LLMApi x \<Rightarrow> is_llm t
                     | ConversationalApi x \<Rightarrow>
                         \<not> is_llm t
                       \<and> (conversational_metrics_of w metrics = [] \<longrightarrow> capi_metrics_data x = None))"
  proof (cases tc)
    case (LLM a)
    show ?thesis
    proof (cases "llm_metrics_of w metrics = []")
      case True
      with assms(1) LLM that [of "[]"] show ?thesis
        by (simp add: unit_trace_def handed_over_def gives_result_def results_of_def)
    next
      case False
      with assms(1) LLM obtain r al where
        "rs1 = rs @ [(test_result_of r, al)]" "trm_test_run s1 = trm_test_run s @ [(LLMApi r, LLM a)]"
        "disable_write_cache s1 = disable_write_cache s"
        "trm_hyperparameters s1 = trm_hyperparameters s"
        by (auto simp: unit_trace_def)
      with False LLM that [of "[(LLMApi r, LLM a)]"] show ?thesis
        by (simp add: handed_over_def gives_result_def results_of_def)
    qed
  next
    case (Conversational c)
    with assms(1) obtain r where
      "rs1 = rs" "trm_test_run s1 = trm_test_run s @ [(ConversationalApi r, Conversational c)]"
      "conversational_metrics_of w metrics = [] \<longrightarrow> capi_metrics_data r = None"
      "disable_write_cache s1 = disable_write_cache s"
      "trm_hyperparameters s1 = trm_hyperparameters s"
      by (auto simp: unit_trace_def)
    with Conversational that [of "[(ConversationalApi r, Conversational c)]"] show ?thesis
      by (simp add: handed_over_def gives_result_def results_of_def)
  qed
  have tk': "map fst rs' = map fst rs @ concat (map results_of (one @ new))"
    using tk tk1 by simp
  have "trm_test_run s' = trm_test_run s @ (one @ new)"
    using run run1 by simp
  moreover have "map snd (one @ new) = filter (handed_over w metrics) (tc # tcs)"
    using snds snds1 by simp
  moreover have "\<forall>r t. (r, t) \<in> set (one @ new) \<longrightarrow>
                    (case r of
                       LLMApi x \<Rightarrow> is_llm t
                     | ConversationalApi x \<Rightarrow>
                         \<not> is_llm t
                       \<and> (conversational_metrics_of w metrics = [] \<longrightarrow> capi_metrics_data x = None))"
    using kinds kinds1 by auto
  moreover have "length rs' = length rs + length (filter (gives_result w metrics) (tc # tcs))"
    using len len1 by simp
  ultimately show ?thesis
    using flags flags1 tk' unfolding batch_trace_def
    by (simp del: set_append map_append)
qed

lemma execute_loop_trace:
  "execute_loop w metrics ie uc tcs (l, c, rs, s) = Inr (l', c', rs', s')
     \<Longrightarrow> batch_trace w metrics tcs (rs, s) (rs', s')"
proof (induction tcs arbitrary: l c rs s)
  case Nil
  then show ?case by (simp add: batch_trace_Nil)
next
  case (Cons tc tcs)
  from Cons.prems obtain l1 c1 rs1 s1 where
    one: "execute_test_case w metrics ie uc tc (l, c, rs, s) = Inr (l1, c1, rs1, s1)"
    and rest: "execute_loop w metrics ie uc tcs (l1, c1, rs1, s1) = Inr (l', c', rs', s')"
    by (auto split: sum.splits)
  from execute_test_case_trace [OF one] Cons.IH [OF rest] show ?case
    by (rule batch_trace_Cons)
qed

lemma a_execute_loop_trace:
  "a_execute_loop w metrics ie uc tcs (l, c, rs, s) = Inr (l', c', rs', s')
     \<Longrightarrow> batch_trace w metrics tcs (rs, s) (rs', s')"
proof (induction tcs arbitrary: l c rs s)
  case Nil
  then show ?case by (simp add: batch_trace_Nil)
next
  case (Cons tc tcs)
  from Cons.prems obtain l1 c1 rs1 s1 where
    one: "a_execute_test_case w metrics ie uc tc (l, c, rs, s) = Inr (l1, c1, rs1, s1)"
    and rest: "a_execute_loop w metrics ie uc tcs (l1, c1, rs1, s1) = Inr (l', c', rs', s')"
    by (auto split: sum.splits)
  from a_execute_test_case_trace [OF one] Cons.IH [OF rest] show ?case
    by (rule batch_trace_Cons)
qed


lemma prepare_batch_state:
  assumes "prepare_batch w tcs metrics sd vm s = (tcs', s1)"
  shows "trm_test_run s1 = trm_test_run s"
    and "disable_write_cache s1 = (\<not> sd)"
    and "llm_test_case_lookup_map s1 = Map.empty"
    and "test_case_objs s1 = test_case_objs s"
    and "trm_hyperparameters s1 = trm_hyperparameters s"
    and "tcs' = tcs @ concat (map appended_messages tcs)"
proof -
  have u: "unchanged_but_metrics (s\<lparr> disable_write_cache := (sd = False), trm_save_to_disk := sd \<rparr>)
      (set_verbose_mode vm metrics (s\<lparr> disable_write_cache := (sd = False), trm_save_to_disk := sd \<rparr>))"
    by simp
  from assms have s1: "s1 = (set_verbose_mode vm metrics
      (s\<lparr> disable_write_cache := (sd = False), trm_save_to_disk := sd \<rparr>))
        \<lparr> llm_test_case_lookup_map := Map.empty \<rparr>"
    and tcs': "tcs' = append_messages 0 tcs"
    by (simp_all add: prepare_batch_def Let_def)
  from u s1 show "trm_test_run s1 = trm_test_run s" "disable_write_cache s1 = (\<not> sd)"
    "llm_test_case_lookup_map s1 = Map.empty" "test_case_objs s1 = test_case_objs s"
    "trm_hyperparameters s1 = trm_hyperparameters s"
    by (simp_all add: unchanged_but_metrics_def)
  from tcs' show "tcs' = tcs @ concat (map appended_messages tcs)"
    by (simp add: append_messages_eq)
qed

lemma execute_test_cases_InrE:
  assumes "snd (execute_test_cases w tcs metrics ie uc sd vm s) = Inr (rs, s')"
  obtains l c es where
    "execute_loop w metrics ie uc (fst (execute_test_cases w tcs metrics ie uc sd vm s))
       (-1, -1, [], snd (prepare_batch w tcs metrics sd vm s)) = Inr (l, c, es, s')"
    and "rs = map (read_test_result s') es"
  using assms
  by (auto simp: execute_test_cases_def Let_def split: prod.splits sum.splits)

lemma a_execute_test_cases_InrE:
  assumes "snd (a_execute_test_cases w tcs metrics ie uc sd vm s) = Inr (rs, s')"
  obtains l c es where
    "a_execute_loop w metrics ie uc (fst (a_execute_test_cases w tcs metrics ie uc sd vm s))
       (-1, -1, [], snd (prepare_batch w tcs metrics sd vm s)) = Inr (l, c, es, s')"
    and "rs = map (read_test_result s') es"
  using assms
  by (auto simp: a_execute_test_cases_def Let_def split: prod.splits sum.splits)

lemma execute_test_cases_exn:
  "snd (execute_test_cases w tcs metrics ie uc sd vm s) = Inl e
     \<Longrightarrow> \<not> ie \<and> (\<exists>msg. e = MetricException msg)"
  by (auto simp: execute_test_cases_def Let_def split: prod.splits sum.splits
        dest: execute_loop_exn)

lemma a_execute_test_cases_exn:
  "snd (a_execute_test_cases w tcs metrics ie uc sd vm s) = Inl e
     \<Longrightarrow> \<not> ie \<and> (\<exists>msg. e = MetricException msg)"
  by (auto simp: a_execute_test_cases_def Let_def split: prod.splits sum.splits
        dest: a_execute_loop_exn)

lemma batch_trace_of_run:
  assumes "run = execute_test_cases \<or> run = a_execute_test_cases"
    and "snd (run w tcs metrics ie uc sd vm s) = Inr (rs, s')"
  obtains es where
    "batch_trace w metrics (fst (run w tcs metrics ie uc sd vm s))
       ([], snd (prepare_batch w tcs metrics sd vm s)) (es, s')"
    and "rs = map (read_test_result s') es"
  using assms(1)
proof
  assume run: "run = execute_test_cases"
  with assms(2) obtain l c es where
    "execute_loop w metrics ie uc (fst (execute_test_cases w tcs metrics ie uc sd vm s))
       (-1, -1, [], snd (prepare_batch w tcs metrics sd vm s)) = Inr (l, c, es, s')"
    and "rs = map (read_test_result s') es"
    by (auto elim: execute_test_cases_InrE)
  with run that show thesis by (auto dest: execute_loop_trace)
next
  assume run: "run = a_execute_test_cases"
  with assms(2) obtain l c es where
    "a_execute_loop w metrics ie uc (fst (a_execute_test_cases w tcs metrics ie uc sd vm s))
       (-1, -1, [], snd (prepare_batch w tcs metrics sd vm s)) = Inr (l, c, es, s')"
    and "rs = map (read_test_result s') es"
    by (auto elim: a_execute_test_cases_InrE)
  with run that show thesis by (auto dest: a_execute_loop_trace)
qed

lemma run_trace:
  assumes "run = execute_test_cases \<or> run = a_execute_test_cases"
    and "snd (run w tcs metrics ie uc sd vm s) = Inr (rs, s')"
  obtains new es where
    "trm_test_run s' = trm_test_run s @ new"
    and "rs = map (read_test_result s') es"
    and "map fst es = concat (map results_of new)"
    and "map snd new = filter (handed_over w metrics) (fst (run w tcs metrics ie uc sd vm s))"
    and "length rs = length (filter (gives_result w metrics) (fst (run w tcs metrics ie uc sd vm s)))"
    and "\<And>r tc. (r, tc) \<in> set new \<Longrightarrow>
           (case r of
              LLMApi x \<Rightarrow> is_llm tc
            | ConversationalApi x \<Rightarrow>
                \<not> is_llm tc
              \<and> (conversational_metrics_of w metrics = [] \<longrightarrow> capi_metrics_data x = None))"
proof -
  obtain tcs' s1 where p: "prepare_batch w tcs metrics sd vm s = (tcs', s1)"
    by (cases "prepare_batch w tcs metrics sd vm s") auto
  from batch_trace_of_run [OF assms] obtain es where
    bt: "batch_trace w metrics (fst (run w tcs metrics ie uc sd vm s))
       ([], snd (prepare_batch w tcs metrics sd vm s)) (es, s')"
    and rs: "rs = map (read_test_result s') es"
    by blast
  from bt p prepare_batch_state(1) [OF p] obtain new where
    "trm_test_run s' = trm_test_run s @ new"
    and "map fst es = concat (map results_of new)"
    and "map snd new = filter (handed_over w metrics) (fst (run w tcs metrics ie uc sd vm s))"
    and "length es = length (filter (gives_result w metrics) (fst (run w tcs metrics ie uc sd vm s)))"
    and "\<forall>r tc. (r, tc) \<in> set new \<longrightarrow>
           (case r of
              LLMApi x \<Rightarrow> is_llm tc
            | ConversationalApi x \<Rightarrow>
                \<not> is_llm tc
              \<and> (conversational_metrics_of w metrics = [] \<longrightarrow> capi_metrics_data x = None))"
    unfolding batch_trace_def by auto
  with rs that [of new es] show thesis by simp
qed


lemma filter_gives_result:
  "filter (gives_result w metrics) tcs
     = (if llm_metrics_of w metrics = [] then [] else filter is_llm tcs)"
  by (induction tcs) (auto simp: gives_result_def)

lemma filter_handed_over:
  "filter (handed_over w metrics) tcs
     = (if llm_metrics_of w metrics = [] then filter (\<lambda>tc. \<not> is_llm tc) tcs else tcs)"
  by (induction tcs) (auto simp: handed_over_def)

lemma assert_result_of_run:
  assumes which: "run = execute_test_cases \<or> run = a_execute_test_cases"
    and no: "llm_metrics_of w metrics = []"
  shows "(case snd (run w [Conversational c] metrics ie uc sd vm s0) of
            Inl e \<Rightarrow> Inl e
          | Inr (test_results, s') \<Rightarrow> assert_result w test_results) = Inl IndexError
       \<or> (\<not> ie \<and> (\<exists>msg. (case snd (run w [Conversational c] metrics ie uc sd vm s0) of
            Inl e \<Rightarrow> Inl e
          | Inr (test_results, s') \<Rightarrow> assert_result w test_results) = Inl (MetricException msg)))"
proof (cases "snd (run w [Conversational c] metrics ie uc sd vm s0)")
  case (Inl e)
  from which have "\<not> ie \<and> (\<exists>msg. e = MetricException msg)"
  proof
    assume "run = execute_test_cases"
    with Inl show ?thesis by (auto dest: execute_test_cases_exn)
  next
    assume "run = a_execute_test_cases"
    with Inl show ?thesis by (auto dest: a_execute_test_cases_exn)
  qed
  with Inl show ?thesis by auto
next
  case (Inr p)
  obtain rs s1 where p: "p = (rs, s1)" by (cases p) auto
  from Inr p have r: "snd (run w [Conversational c] metrics ie uc sd vm s0) = Inr (rs, s1)"
    by simp
  from run_trace [OF which r] obtain new where
    "length rs = length (filter (gives_result w metrics)
        (fst (run w [Conversational c] metrics ie uc sd vm s0)))"
    by blast
  with no have "rs = []" by (simp add: filter_gives_result)
  with r show ?thesis by (simp add: assert_result_def)
qed



lemma assert_result_of_returning_run:
  assumes which: "run = execute_test_cases \<or> run = a_execute_test_cases"
    and no: "llm_metrics_of w metrics = []"
    and r: "snd (run w tcs metrics ie uc sd vm s0) = Inr (rs, s1)"
  shows "assert_result w rs = Inl IndexError"
proof -
  from run_trace [OF which r] obtain new es where
    "length rs = length (filter (gives_result w metrics) (fst (run w tcs metrics ie uc sd vm s0)))"
    by blast
  with no have "rs = []" by (simp add: filter_gives_result)
  then show ?thesis by (simp add: assert_result_def)
qed

section \<open>Conversational test cases and the returned list\<close>

text \<open>The batch of one that \<open>assert_test\<close> runs, whether it returned, and what it returned.\<close>

definition batch_of_assert_test ::
  "world \<Rightarrow> test_case \<Rightarrow> addr list \<Rightarrow> bool \<Rightarrow> state
     \<Rightarrow> test_case list \<times> (exn + TestResult list \<times> state)" where
  "batch_of_assert_test w test_case metrics run_async s =
     (if run_async then
        a_execute_test_cases w [test_case] metrics (should_ignore_errors w) (should_use_cache w)
          (get_is_running_deepeval w) (should_verbose_print w) s
      else
        execute_test_cases w [test_case] metrics (should_ignore_errors w) (should_use_cache w)
          (get_is_running_deepeval w) (should_verbose_print w) s)"

definition returns :: "test_case list \<times> (exn + TestResult list \<times> state) \<Rightarrow> bool" where
  "returns outcome = (case snd outcome of Inl e \<Rightarrow> False | Inr x \<Rightarrow> True)"

definition returned :: "test_case list \<times> (exn + TestResult list \<times> state) \<Rightarrow> TestResult list" where
  "returned outcome = (case snd outcome of Inl e \<Rightarrow> [] | Inr (test_results, s) \<Rightarrow> test_results)"

text \<open>A world in which every metric raises \<open>boom\<close>; errors are not ignored.\<close>

definition raising_world :: world where
  "raising_world = example_world\<lparr> metric_measure := (\<lambda>m test_case objs. (m, Some ''boom'')) \<rparr>"

lemma returnsE:
  assumes "returns outcome"
  obtains s' where "snd outcome = Inr (returned outcome, s')"
    and "recorded outcome = trm_test_run s'"
  using assms
  by (cases "snd outcome") (auto simp: returns_def returned_def recorded_def)

lemma assert_test_batch:
  "assert_test w test_case metrics run_async s =
     (case snd (batch_of_assert_test w test_case metrics run_async s) of
        Inl e \<Rightarrow> Inl e
      | Inr (test_results, s') \<Rightarrow> assert_result w test_results)"
  by (cases run_async) (simp_all add: assert_test_def batch_of_assert_test_def)

lemma batch_of_assert_test_run:
  "\<exists>run. (run = execute_test_cases \<or> run = a_execute_test_cases)
     \<and> batch_of_assert_test w test_case metrics run_async s =
           run w [test_case] metrics (should_ignore_errors w) (should_use_cache w)
             (get_is_running_deepeval w) (should_verbose_print w) s"
proof (cases run_async)
  case True
  then show ?thesis
    by (intro exI [of _ a_execute_test_cases]) (simp add: batch_of_assert_test_def)
next
  case False
  then show ?thesis
    by (intro exI [of _ execute_test_cases]) (simp add: batch_of_assert_test_def)
qed

text \<open>The same \<open>LLMTestCase\<close> object as a message of a conversation and as an entry of the
  batch: it is executed twice on the record in the lookup map, and both returned results
  show the two metric results of that record.\<close>

lemma example_shared_metrics_data:
  "map (\<lambda>r. map_option length (tr_metrics_data r))
     (returned (execute_test_cases example_world
        [Conversational (example_conversation [0]), LLM 0] [0]
        False False False None example_state))
   = [Some 2, Some 2]"
  by (simp add: exec_defs returned_def)

lemma example_conversational_only_returns:
  "returns (batch_of_assert_test example_world (Conversational (example_conversation [0, 1])) [1]
          False example_state)"
  by (simp add: exec_defs returns_def batch_of_assert_test_def)

lemma example_no_llm_metric: "llm_metrics_of example_world [1] = []"
  by (simp add: llm_metrics_of_def example_world_def)

lemma example_batch_of_assert_test:
  "batch_of_assert_test example_world test_case metrics False s =
     execute_test_cases example_world [test_case] metrics False False False None s"
  by (simp add: batch_of_assert_test_def example_world_def)

text \<open>
  Claim C10, as the claim words it, fails at a conversational test case whose
  conversational metric raises while errors are not ignored: no single-turn metric is
  configured, and \<open>assert_test\<close> fails with the exception of the metric, in both
  strategies, not by indexing the empty list.
\<close>

theorem assert_test_conversational_metric_raises:
  "llm_metrics_of raising_world [1] = []
   \<and> assert_test raising_world (Conversational (example_conversation [0, 1])) [1] False
        example_state = Inl (MetricException ''boom'')
   \<and> assert_test raising_world (Conversational (example_conversation [0, 1])) [1] True
        example_state = Inl (MetricException ''boom'')"
  by (simp add: exec_defs raising_world_def)

text \<open>
  Claim C10, amended. When a batch returns, in both strategies: the records handed to the
  test run during the call (\<open>new\<close>) are those of every conversational test case of the
  flattened batch and, when a single-turn metric is configured, of every single-turn
  test case, in the order of the batch, each of the kind of its test case; the returned
  list holds one result for each single-turn record among them, in order, and nothing
  for a conversational record (\<open>results_of\<close>), each read as the caller sees it
  (\<open>read_test_result\<close>); so it has one entry per single-turn unit when a single-turn
  metric is configured and is empty otherwise. With no single-turn metric, \<open>assert_test\<close>
  on a conversational test case fails by indexing the empty list whenever its batch
  returns, which it does whenever errors are ignored; the only other outcome is that a
  metric raised while errors are not ignored, and then that exception leaves
  \<open>assert_test\<close>. It never passes and never fails with the assertion on failed metrics.
\<close>

theorem conversational_units_give_no_test_result:
  assumes "run = execute_test_cases \<or> run = a_execute_test_cases"
  shows "(snd (run w test_cases metrics ignore_errors use_cache save_to_disk verbose_mode s)
            = Inr (test_results, s') \<longrightarrow>
          (\<exists>new es. trm_test_run s' = trm_test_run s @ new
             \<and> map snd new = filter (handed_over w metrics)
                 (fst (run w test_cases metrics ignore_errors use_cache save_to_disk verbose_mode s))
             \<and> (\<forall>r tc. (r, tc) \<in> set new \<longrightarrow>
                   (case r of LLMApi x \<Rightarrow> is_llm tc | ConversationalApi x \<Rightarrow> \<not> is_llm tc))
             \<and> test_results = map (read_test_result s') es
             \<and> map fst es = concat (map results_of new)
             \<and> length test_results =
                 (if llm_metrics_of w metrics = [] then 0
                  else length (filter is_llm
                         (fst (run w test_cases metrics ignore_errors use_cache save_to_disk
                                 verbose_mode s))))))
       \<and> (llm_metrics_of w metrics = [] \<longrightarrow>
            snd (run w test_cases metrics ignore_errors use_cache save_to_disk verbose_mode s)
              = Inr (test_results, s') \<longrightarrow> test_results = [])
       \<and> (llm_metrics_of w metrics = [] \<longrightarrow>
            returns (batch_of_assert_test w (Conversational c) metrics run_async s0) \<longrightarrow>
            assert_test w (Conversational c) metrics run_async s0 = Inl IndexError)
       \<and> (llm_metrics_of w metrics = [] \<longrightarrow> should_ignore_errors w \<longrightarrow>
            returns (batch_of_assert_test w (Conversational c) metrics run_async s0)
          \<and> assert_test w (Conversational c) metrics run_async s0 = Inl IndexError)
       \<and> (llm_metrics_of w metrics = [] \<longrightarrow>
            assert_test w (Conversational c) metrics run_async s0 = Inl IndexError
          \<or> (\<not> should_ignore_errors w
              \<and> \<not> returns (batch_of_assert_test w (Conversational c) metrics run_async s0)
              \<and> (\<exists>msg. assert_test w (Conversational c) metrics run_async s0
                          = Inl (MetricException msg))))"
proof -
  have trace: "\<exists>new es. trm_test_run s' = trm_test_run s @ new
             \<and> map snd new = filter (handed_over w metrics)
                 (fst (run w test_cases metrics ignore_errors use_cache save_to_disk verbose_mode s))
             \<and> (\<forall>r tc. (r, tc) \<in> set new \<longrightarrow>
                   (case r of LLMApi x \<Rightarrow> is_llm tc | ConversationalApi x \<Rightarrow> \<not> is_llm tc))
             \<and> test_results = map (read_test_result s') es
             \<and> map fst es = concat (map results_of new)
             \<and> length test_results =
                 (if llm_metrics_of w metrics = [] then 0
                  else length (filter is_llm
                         (fst (run w test_cases metrics ignore_errors use_cache save_to_disk
                                 verbose_mode s))))"
    if r: "snd (run w test_cases metrics ignore_errors use_cache save_to_disk verbose_mode s)
            = Inr (test_results, s')"
  proof -
    from run_trace [OF assms r] obtain new es where
      f: "trm_test_run s' = trm_test_run s @ new"
        "test_results = map (read_test_result s') es"
        "map fst es = concat (map results_of new)"
        "map snd new = filter (handed_over w metrics)
           (fst (run w test_cases metrics ignore_errors use_cache save_to_disk verbose_mode s))"
        "length test_results = length (filter (gives_result w metrics)
           (fst (run w test_cases metrics ignore_errors use_cache save_to_disk verbose_mode s)))"
      and kinds: "\<And>r tc. (r, tc) \<in> set new \<Longrightarrow>
           (case r of
              LLMApi x \<Rightarrow> is_llm tc
            | ConversationalApi x \<Rightarrow>
                \<not> is_llm tc
              \<and> (conversational_metrics_of w metrics = [] \<longrightarrow> capi_metrics_data x = None))"
      by blast
    have k: "\<forall>r tc. (r, tc) \<in> set new \<longrightarrow>
                   (case r of LLMApi x \<Rightarrow> is_llm tc | ConversationalApi x \<Rightarrow> \<not> is_llm tc)"
    proof (intro allI impI)
      fix r tc
      assume "(r, tc) \<in> set new"
      from kinds [OF this]
      show "case r of LLMApi x \<Rightarrow> is_llm tc | ConversationalApi x \<Rightarrow> \<not> is_llm tc"
        by (cases r) auto
    qed
    have len: "length test_results =
                 (if llm_metrics_of w metrics = [] then 0
                  else length (filter is_llm
                         (fst (run w test_cases metrics ignore_errors use_cache save_to_disk
                                 verbose_mode s))))"
      using f(5) by (simp add: filter_gives_result)
    from f(1) f(4) k f(2) f(3) len show ?thesis by blast
  qed
  have empty: "test_results = []"
    if no: "llm_metrics_of w metrics = []"
      and r: "snd (run w test_cases metrics ignore_errors use_cache save_to_disk verbose_mode s)
            = Inr (test_results, s')"
  proof -
    from trace [OF r] no have "length test_results = 0" by auto
    then show ?thesis by simp
  qed
  obtain run0 where run0: "run0 = execute_test_cases \<or> run0 = a_execute_test_cases"
    and b: "batch_of_assert_test w (Conversational c) metrics run_async s0 =
           run0 w [Conversational c] metrics (should_ignore_errors w) (should_use_cache w)
             (get_is_running_deepeval w) (should_verbose_print w) s0"
    using batch_of_assert_test_run by blast
  have returning: "assert_test w (Conversational c) metrics run_async s0 = Inl IndexError"
    if no: "llm_metrics_of w metrics = []"
      and ret: "returns (batch_of_assert_test w (Conversational c) metrics run_async s0)"
  proof -
    from ret obtain rs s1 where
      r: "snd (batch_of_assert_test w (Conversational c) metrics run_async s0) = Inr (rs, s1)"
      by (cases "snd (batch_of_assert_test w (Conversational c) metrics run_async s0)")
         (auto simp: returns_def)
    with b have "snd (run0 w [Conversational c] metrics (should_ignore_errors w)
        (should_use_cache w) (get_is_running_deepeval w) (should_verbose_print w) s0)
          = Inr (rs, s1)"
      by simp
    from assert_result_of_returning_run [OF run0 no this] r show ?thesis
      by (simp add: assert_test_batch)
  qed
  have raising: "\<not> should_ignore_errors w
      \<and> (\<exists>msg. assert_test w (Conversational c) metrics run_async s0 = Inl (MetricException msg))"
    if nret: "\<not> returns (batch_of_assert_test w (Conversational c) metrics run_async s0)"
  proof -
    from nret obtain e where
      e: "snd (batch_of_assert_test w (Conversational c) metrics run_async s0) = Inl e"
      by (cases "snd (batch_of_assert_test w (Conversational c) metrics run_async s0)")
         (auto simp: returns_def)
    with b have e0: "snd (run0 w [Conversational c] metrics (should_ignore_errors w)
        (should_use_cache w) (get_is_running_deepeval w) (should_verbose_print w) s0) = Inl e"
      by simp
    from run0 have "\<not> should_ignore_errors w \<and> (\<exists>msg. e = MetricException msg)"
    proof
      assume "run0 = execute_test_cases"
      with e0 show ?thesis by (auto dest: execute_test_cases_exn)
    next
      assume "run0 = a_execute_test_cases"
      with e0 show ?thesis by (auto dest: a_execute_test_cases_exn)
    qed
    with e show ?thesis by (auto simp: assert_test_batch)
  qed
  from trace empty returning raising show ?thesis by blast
qed

lemma example_world_ignores_no_errors: "\<not> should_ignore_errors example_world"
  by (simp add: example_world_def)

theorem conversational_units_give_no_test_result_witness:
  "returns (execute_test_cases example_world [Conversational (example_conversation [0, 1])] [1]
          False False False None example_state)
   \<and> llm_metrics_of example_world [1] = []
   \<and> returned (execute_test_cases example_world [Conversational (example_conversation [0, 1])] [1]
          False False False None example_state) = []
   \<and> assert_test example_world (Conversational (example_conversation [0, 1])) [1] False
        example_state = Inl IndexError"
proof -
  have ret: "returns (execute_test_cases example_world
      [Conversational (example_conversation [0, 1])] [1] False False False None example_state)"
    using example_conversational_only_returns by (simp add: example_batch_of_assert_test)
  then obtain s' where s':
    "snd (execute_test_cases example_world [Conversational (example_conversation [0, 1])] [1]
          False False False None example_state)
      = Inr (returned (execute_test_cases example_world
          [Conversational (example_conversation [0, 1])] [1]
          False False False None example_state), s')"
    by (rule returnsE)
  note c10 = conversational_units_give_no_test_result
      [of execute_test_cases example_world "[Conversational (example_conversation [0, 1])]"
        "[1]" False False False None example_state
        "returned (execute_test_cases example_world
          [Conversational (example_conversation [0, 1])] [1]
          False False False None example_state)" s' "example_conversation [0, 1]" False
        example_state]
  have "returned (execute_test_cases example_world [Conversational (example_conversation [0, 1])]
          [1] False False False None example_state) = []"
    using c10 s' example_no_llm_metric by blast
  moreover have "assert_test example_world (Conversational (example_conversation [0, 1])) [1]
      False example_state = Inl IndexError"
    using c10 example_no_llm_metric example_conversational_only_returns by blast
  ultimately show ?thesis using ret example_no_llm_metric by blast
qed

section \<open>Units without an applicable metric\<close>

lemma filter_conversational_handed_over:
  "filter (\<lambda>tc. \<not> is_llm tc) (filter (handed_over w metrics) tcs)
     = filter (\<lambda>tc. \<not> is_llm tc) tcs"
  by (induction tcs) (auto simp: handed_over_def)

lemma run_returns_when_errors_ignored:
  assumes "run = execute_test_cases \<or> run = a_execute_test_cases"
  shows "\<exists>rs s1. snd (run w tcs metrics True uc sd vm s) = Inr (rs, s1)"
proof (cases "snd (run w tcs metrics True uc sd vm s)")
  case (Inl e)
  from assms have False
  proof
    assume "run = execute_test_cases"
    with Inl show False by (auto dest: execute_test_cases_exn)
  next
    assume "run = a_execute_test_cases"
    with Inl show False by (auto dest: a_execute_test_cases_exn)
  qed
  then show ?thesis ..
next
  case (Inr p)
  then show ?thesis by (cases p) auto
qed

lemma example_no_metric_returns:
  "returns (execute_test_cases example_world
      [LLM 0, Conversational (example_conversation [1])] [] False False False None
      example_state)"
  by (simp add: exec_defs returns_def)

text \<open>
  Claim C6. When a batch returns, in both strategies, the records handed to the test run
  during the call (\<open>new\<close>) belong, in order, to the test cases of the flattened batch that
  are conversational or for which a single-turn metric is configured. So with no
  single-turn metric no single-turn test case has a record, and the returned list is
  empty; every conversational test case has its conversational record, and with no
  conversational metric the metric results of that record are still unset, as
  \<open>create_api_test_case\<close> made them. With errors ignored the batch always returns.
\<close>

theorem units_without_applicable_metric:
  assumes "run = execute_test_cases \<or> run = a_execute_test_cases"
  shows "(snd (run w test_cases metrics ignore_errors use_cache save_to_disk verbose_mode s)
            = Inr (test_results, s') \<longrightarrow>
          (\<exists>new. trm_test_run s' = trm_test_run s @ new
             \<and> map snd new = filter (handed_over w metrics)
                 (fst (run w test_cases metrics ignore_errors use_cache save_to_disk verbose_mode s))
             \<and> filter (\<lambda>tc. \<not> is_llm tc) (map snd new) =
                 filter (\<lambda>tc. \<not> is_llm tc)
                   (fst (run w test_cases metrics ignore_errors use_cache save_to_disk
                           verbose_mode s))
             \<and> (llm_metrics_of w metrics = [] \<longrightarrow>
                   filter is_llm (map snd new) = [] \<and> test_results = [])
             \<and> (\<forall>r tc. (r, tc) \<in> set new \<longrightarrow>
                   (case r of
                      LLMApi x \<Rightarrow> is_llm tc
                    | ConversationalApi x \<Rightarrow>
                        \<not> is_llm tc
                      \<and> (conversational_metrics_of w metrics = [] \<longrightarrow>
                            capi_metrics_data x = None)))))
       \<and> (ignore_errors \<longrightarrow>
            (\<exists>rs s1. snd (run w test_cases metrics ignore_errors use_cache save_to_disk
                            verbose_mode s) = Inr (rs, s1)))"
proof (intro conjI impI)
  assume r: "snd (run w test_cases metrics ignore_errors use_cache save_to_disk verbose_mode s)
            = Inr (test_results, s')"
  from run_trace [OF assms r] obtain new es where
    t: "trm_test_run s' = trm_test_run s @ new"
    and m: "map snd new = filter (handed_over w metrics)
         (fst (run w test_cases metrics ignore_errors use_cache save_to_disk verbose_mode s))"
    and l: "length test_results = length (filter (gives_result w metrics)
         (fst (run w test_cases metrics ignore_errors use_cache save_to_disk verbose_mode s)))"
    and k: "\<And>r tc. (r, tc) \<in> set new \<Longrightarrow>
           (case r of
              LLMApi x \<Rightarrow> is_llm tc
            | ConversationalApi x \<Rightarrow>
                \<not> is_llm tc
              \<and> (conversational_metrics_of w metrics = [] \<longrightarrow> capi_metrics_data x = None))"
    by blast
  have c: "filter (\<lambda>tc. \<not> is_llm tc) (map snd new) =
                 filter (\<lambda>tc. \<not> is_llm tc)
                   (fst (run w test_cases metrics ignore_errors use_cache save_to_disk
                           verbose_mode s))"
    by (simp only: m filter_conversational_handed_over)
  have n: "llm_metrics_of w metrics = [] \<longrightarrow>
             filter is_llm (map snd new) = [] \<and> test_results = []"
  proof
    assume no: "llm_metrics_of w metrics = []"
    with l have "length test_results = 0" by (simp add: filter_gives_result)
    moreover from no m have "filter is_llm (map snd new) = []"
      by (simp add: filter_handed_over)
    ultimately show "filter is_llm (map snd new) = [] \<and> test_results = []" by simp
  qed
  from k have k': "\<forall>r tc. (r, tc) \<in> set new \<longrightarrow>
                   (case r of
                      LLMApi x \<Rightarrow> is_llm tc
                    | ConversationalApi x \<Rightarrow>
                        \<not> is_llm tc
                      \<and> (conversational_metrics_of w metrics = [] \<longrightarrow>
                            capi_metrics_data x = None))"
    by blast
  from t m c n k' show "\<exists>new. trm_test_run s' = trm_test_run s @ new
             \<and> map snd new = filter (handed_over w metrics)
                 (fst (run w test_cases metrics ignore_errors use_cache save_to_disk verbose_mode s))
             \<and> filter (\<lambda>tc. \<not> is_llm tc) (map snd new) =
                 filter (\<lambda>tc. \<not> is_llm tc)
                   (fst (run w test_cases metrics ignore_errors use_cache save_to_disk
                           verbose_mode s))
             \<and> (llm_metrics_of w metrics = [] \<longrightarrow>
                   filter is_llm (map snd new) = [] \<and> test_results = [])
             \<and> (\<forall>r tc. (r, tc) \<in> set new \<longrightarrow>
                   (case r of
                      LLMApi x \<Rightarrow> is_llm tc
                    | ConversationalApi x \<Rightarrow>
                        \<not> is_llm tc
                      \<and> (conversational_metrics_of w metrics = [] \<longrightarrow>
                            capi_metrics_data x = None)))"
    by blast
next
  assume ignore_errors
  with run_returns_when_errors_ignored [OF assms]
  show "\<exists>rs s1. snd (run w test_cases metrics ignore_errors use_cache save_to_disk
                            verbose_mode s) = Inr (rs, s1)"
    by simp
qed

theorem units_without_applicable_metric_witness:
  "returns (execute_test_cases example_world
      [LLM 0, Conversational (example_conversation [1])] [] False False False None
      example_state)
   \<and> (\<exists>x. recorded (execute_test_cases example_world
      [LLM 0, Conversational (example_conversation [1])] [] False False False None
      example_state) = [(ConversationalApi x, Conversational (example_conversation [1]))]
        \<and> capi_metrics_data x = None)
   \<and> returned (execute_test_cases example_world
      [LLM 0, Conversational (example_conversation [1])] [] False False False None
      example_state) = []"
proof -
  let ?out = "execute_test_cases example_world
      [LLM 0, Conversational (example_conversation [1])] [] False False False None
      example_state"
  obtain s' where s': "snd ?out = Inr (returned ?out, s')"
    and rec: "recorded ?out = trm_test_run s'"
    using example_no_metric_returns by (rule returnsE)
  have f: "fst ?out = [LLM 0, Conversational (example_conversation [1]), LLM 1]"
    by (simp add: fst_execute_test_cases example_conversation_def evaluated_messages_def)
  have no: "llm_metrics_of example_world [] = []" "conversational_metrics_of example_world [] = []"
    by (simp_all add: llm_metrics_of_def conversational_metrics_of_def)
  have st: "trm_test_run example_state = []" by (simp add: example_state_def)
  from units_without_applicable_metric
      [of execute_test_cases example_world "[LLM 0, Conversational (example_conversation [1])]"
        "[]" False False False None example_state "returned ?out" s'] s'
  obtain new where new: "trm_test_run s' = trm_test_run example_state @ new"
    "map snd new = filter (handed_over example_world []) (fst ?out)"
    and e: "llm_metrics_of example_world [] = [] \<longrightarrow>
              filter is_llm (map snd new) = [] \<and> returned ?out = []"
    and k: "\<forall>r tc. (r, tc) \<in> set new \<longrightarrow>
                   (case r of
                      LLMApi x \<Rightarrow> is_llm tc
                    | ConversationalApi x \<Rightarrow>
                        \<not> is_llm tc
                      \<and> (conversational_metrics_of example_world [] = [] \<longrightarrow>
                            capi_metrics_data x = None))"
    by blast
  from e no have empty: "returned ?out = []" by simp
  from new(2) f no have "map snd new = [Conversational (example_conversation [1])]"
    by (simp add: handed_over_def)
  then obtain r where n1: "new = [(r, Conversational (example_conversation [1]))]"
    by (cases new) auto
  with k no obtain x where "r = ConversationalApi x" "capi_metrics_data x = None"
    by (cases r) auto
  with n1 new st rec empty example_no_metric_returns show ?thesis by simp
qed

end
